theory Spec2Isabelle
  imports Main "HOL-Library.AList"
begin

section \<open>Event envelopes (agent.py, \<open>MessageType\<close> and \<open>Message\<close>)\<close>

datatype MessageType =
    INIT | USER | AGENT_PARTIAL | AGENT_FINAL | LOAD_CODE | EDIT_CODE
  | GET_CODE_FOR_DISPLAY | CODE_DISPLAY_RESPONSE
  | UPDATE_IN_PROGRESS | UPDATE_FILE | UPDATE_COMPLETED

text \<open>The \<open>.value\<close> of each enum member.\<close>

fun MessageType_value :: "MessageType \<Rightarrow> string" where
  "MessageType_value INIT = ''init''"
| "MessageType_value USER = ''user''"
| "MessageType_value AGENT_PARTIAL = ''agent_partial''"
| "MessageType_value AGENT_FINAL = ''agent_final''"
| "MessageType_value LOAD_CODE = ''load_code''"
| "MessageType_value EDIT_CODE = ''edit_code''"
| "MessageType_value GET_CODE_FOR_DISPLAY = ''get_code_for_display''"
| "MessageType_value CODE_DISPLAY_RESPONSE = ''code_display_response''"
| "MessageType_value UPDATE_IN_PROGRESS = ''update_in_progress''"
| "MessageType_value UPDATE_FILE = ''update_file''"
| "MessageType_value UPDATE_COMPLETED = ''update_completed''"

text \<open>
  Python values that cross the session boundary are JSON values: a dict is an
  association list in insertion order, a list or tuple is an array.
\<close>

datatype json =
    JNull
  | JStr string
  | JInt int
  | JArr "json list"
  | JObj "(string \<times> json) list"

record Message =
  msg_id :: string
  msg_timestamp :: int
  msg_type :: MessageType
  msg_data :: json

text \<open>
  \<open>uuid.uuid4()\<close> and \<open>time.time_ns()\<close> read the outside world. The model
  takes both as sources indexed by the number of calls made so far, and threads the
  two call counters.
\<close>

record sys =
  uuid_src :: "nat \<Rightarrow> string"
  uuid_calls :: nat
  time_src :: "nat \<Rightarrow> int"
  time_calls :: nat

definition uuid4_str :: "sys \<Rightarrow> string \<times> sys" where
  "uuid4_str s = (uuid_src s (uuid_calls s), s\<lparr>uuid_calls := Suc (uuid_calls s)\<rparr>)"

definition time_ns :: "sys \<Rightarrow> int \<times> sys" where
  "time_ns s = (time_src s (time_calls s), s\<lparr>time_calls := Suc (time_calls s)\<rparr>)"

text \<open>
  \<open>Message.new\<close>: \<open>id or str(uuid.uuid4())\<close> takes the supplied id when it is
  truthy (neither \<open>None\<close> nor the empty string) and calls \<open>uuid4\<close> otherwise;
  the timestamp is \<open>time.time_ns() // 1_000_000\<close>.
\<close>

definition Message_new :: "MessageType \<Rightarrow> json \<Rightarrow> string option \<Rightarrow> sys \<Rightarrow> Message \<times> sys" where
  "Message_new t d i s =
     (let (the_id, s1) =
            (case i of
               None \<Rightarrow> uuid4_str s
             | Some x \<Rightarrow> if x \<noteq> [] then (x, s) else uuid4_str s);
          (ns, s2) = time_ns s1
      in (\<lparr>msg_id = the_id, msg_timestamp = ns div 1000000,
           msg_type = t, msg_data = d\<rparr>, s2))"

definition to_dict :: "Message \<Rightarrow> json" where
  "to_dict m = JObj [(''id'', JStr (msg_id m)),
                     (''type'', JStr (MessageType_value (msg_type m))),
                     (''data'', msg_data m),
                     (''timestamp'', JInt (msg_timestamp m))]"

text \<open>Reading an emitted envelope (a dict) back: its \<open>type\<close>, \<open>id\<close> and \<open>data\<close> entries.\<close>

fun env_field :: "string \<Rightarrow> json \<Rightarrow> json option" where
  "env_field k (JObj kvs) = map_of kvs k"
| "env_field k _ = None"

definition env_type :: "json \<Rightarrow> string option" where
  "env_type e = (case env_field ''type'' e of Some (JStr t) \<Rightarrow> Some t | _ \<Rightarrow> None)"

definition env_id :: "json \<Rightarrow> string option" where
  "env_id e = (case env_field ''id'' e of Some (JStr t) \<Rightarrow> Some t | _ \<Rightarrow> None)"

definition is_type :: "MessageType \<Rightarrow> json \<Rightarrow> bool" where
  "is_type t e = (env_type e = Some (MessageType_value t))"

section \<open>The sandbox tools (tools.py)\<close>

text \<open>
  A file holds raw bytes (a \<open>char\<close> is one byte). A Python \<open>str\<close> is held as the
  bytes of its UTF-8 encoding, so that a literal such as \<open>''abc''\<close> is itself,
  concatenation is \<open>@\<close>, and \<open>bytes.decode("utf-8")\<close> keeps the bytes when they are
  well-formed UTF-8 and raises otherwise.
\<close>

type_synonym bytes = "char list"

definition byte_in :: "nat \<Rightarrow> nat \<Rightarrow> char \<Rightarrow> bool" where
  "byte_in lo hi c = (lo \<le> of_char c \<and> of_char c \<le> hi)"

text \<open>
  Well-formed UTF-8 (the Unicode standard's table of byte sequences, which the strict
  decoder follows): no overlong forms, no surrogates, nothing above U+10FFFF.
\<close>

fun valid_utf8 :: "bytes \<Rightarrow> bool" where
  "valid_utf8 [] = True"
| "valid_utf8 [b] = byte_in 0x00 0x7F b"
| "valid_utf8 [b, c1] =
     (if byte_in 0x00 0x7F b then valid_utf8 [c1]
      else byte_in 0xC2 0xDF b \<and> byte_in 0x80 0xBF c1)"
| "valid_utf8 [b, c1, c2] =
     (if byte_in 0x00 0x7F b then valid_utf8 [c1, c2]
      else if byte_in 0xC2 0xDF b then byte_in 0x80 0xBF c1 \<and> valid_utf8 [c2]
      else (byte_in 0xE0 0xE0 b \<and> byte_in 0xA0 0xBF c1
            \<or> byte_in 0xE1 0xEC b \<and> byte_in 0x80 0xBF c1
            \<or> byte_in 0xED 0xED b \<and> byte_in 0x80 0x9F c1
            \<or> byte_in 0xEE 0xEF b \<and> byte_in 0x80 0xBF c1)
           \<and> byte_in 0x80 0xBF c2)"
| "valid_utf8 (b # c1 # c2 # c3 # rest) =
     (if byte_in 0x00 0x7F b then valid_utf8 (c1 # c2 # c3 # rest)
      else if byte_in 0xC2 0xDF b then byte_in 0x80 0xBF c1 \<and> valid_utf8 (c2 # c3 # rest)
      else if byte_in 0xE0 0xEF b then
           (byte_in 0xE0 0xE0 b \<and> byte_in 0xA0 0xBF c1
            \<or> byte_in 0xE1 0xEC b \<and> byte_in 0x80 0xBF c1
            \<or> byte_in 0xED 0xED b \<and> byte_in 0x80 0x9F c1
            \<or> byte_in 0xEE 0xEF b \<and> byte_in 0x80 0xBF c1)
           \<and> byte_in 0x80 0xBF c2 \<and> valid_utf8 (c3 # rest)
      else (byte_in 0xF0 0xF0 b \<and> byte_in 0x90 0xBF c1
            \<or> byte_in 0xF1 0xF3 b \<and> byte_in 0x80 0xBF c1
            \<or> byte_in 0xF4 0xF4 b \<and> byte_in 0x80 0x8F c1)
           \<and> byte_in 0x80 0xBF c2 \<and> byte_in 0x80 0xBF c3 \<and> valid_utf8 rest)"

definition decode_utf8 :: "bytes \<Rightarrow> string option" where
  "decode_utf8 bs = (if valid_utf8 bs then Some bs else None)"

text \<open>
  A sandbox's file tree below \<open>DEFAULT_PROJECT_ROOT\<close>. \<open>sandbox.fs.list_files\<close>
  of a directory gives its entries, each with a \<open>name\<close> and \<open>is_dir\<close>;
  \<open>download_file\<close> gives a file's bytes.
\<close>

datatype fsnode = FsFile string bytes | FsDir string "fsnode list"

type_synonym code_map = "(string \<times> string) list"

definition DEFAULT_CODE_PATH :: string where
  "DEFAULT_CODE_PATH = ''/app/src''"

definition DEFAULT_PROJECT_ROOT :: string where
  "DEFAULT_PROJECT_ROOT = ''/app''"

text \<open>\<open>str(Path(dir_path) / file.name)\<close> for a plain entry name.\<close>

definition path_join :: "string \<Rightarrow> string \<Rightarrow> string" where
  "path_join d n = d @ ''/'' @ n"

text \<open>
  \<open>_process_directory\<close> of \<open>load_code\<close>: subdirectories are walked recursively,
  every file is stored under its full path (\<open>file_map[str(full_path)] = file_content\<close>),
  its content being the bytes as read, not decoded.
\<close>

fun process_directory :: "string \<Rightarrow> fsnode list \<Rightarrow> (string \<times> bytes) list \<Rightarrow> (string \<times> bytes) list"
  and process_entry :: "string \<Rightarrow> fsnode \<Rightarrow> (string \<times> bytes) list \<Rightarrow> (string \<times> bytes) list" where
  "process_directory d [] fm = fm"
| "process_directory d (f # fs) fm = process_directory d fs (process_entry d f fm)"
| "process_entry d (FsFile n c) fm = AList.update (path_join d n) c fm"
| "process_entry d (FsDir n es) fm = process_directory (path_join d n) es fm"

datatype tool_error =
    NotFoundError string
  | TransientError string
  | WriteError string
  | UnicodeDecodeError string
  | SerializationError string
  | ValidationError string

fun find_dir :: "string \<Rightarrow> fsnode list \<Rightarrow> fsnode list option" where
  "find_dir n [] = None"
| "find_dir n (FsDir m es # fs) = (if m = n then Some es else find_dir n fs)"
| "find_dir n (FsFile m c # fs) = find_dir n fs"

fun find_file :: "string \<Rightarrow> fsnode list \<Rightarrow> bytes option" where
  "find_file n [] = None"
| "find_file n (FsFile m c # fs) = (if m = n then Some c else find_file n fs)"
| "find_file n (FsDir m es # fs) = find_file n fs"

text \<open>
  \<open>load_code\<close>: connect to the sandbox (an unknown id raises), walk
  \<open>DEFAULT_CODE_PATH\<close> into an empty \<open>file_map\<close>, download \<open>package.json\<close> from
  the project root and decode it (\<open>.decode("utf-8")\<close>, which may raise), return the
  pair \<open>(file_map, package_json)\<close>. The values of \<open>file_map\<close> are still bytes.
\<close>

definition tools_load_code :: "(string \<times> fsnode list) list \<Rightarrow> string \<Rightarrow> tool_error + ((string \<times> bytes) list \<times> string)" where
  "tools_load_code sandboxes sandbox_id =
     (case map_of sandboxes sandbox_id of
        None \<Rightarrow> Inl (NotFoundError sandbox_id)
      | Some root \<Rightarrow>
          (case find_dir ''src'' root of
             None \<Rightarrow> Inl (NotFoundError DEFAULT_CODE_PATH)
           | Some entries \<Rightarrow>
               (let file_map = process_directory DEFAULT_CODE_PATH entries [] in
                case find_file ''package.json'' root of
                  None \<Rightarrow> Inl (NotFoundError (path_join DEFAULT_PROJECT_ROOT ''package.json''))
                | Some raw \<Rightarrow>
                    (case decode_utf8 raw of
                       None \<Rightarrow> Inl (UnicodeDecodeError (path_join DEFAULT_PROJECT_ROOT ''package.json''))
                     | Some package_json \<Rightarrow> Inr (file_map, package_json)))))"

text \<open>
  The tool's return value travels to the client as JSON text, which the client reads back
  with \<open>json.loads\<close>. A bytes value can be written into JSON text only as the string it
  decodes to: a content that is not well-formed UTF-8 makes the call fail, and every
  other content arrives as a string.
\<close>

fun serialize_file_map :: "(string \<times> bytes) list \<Rightarrow> code_map option" where
  "serialize_file_map [] = Some []"
| "serialize_file_map ((path, raw) # rest) =
     (case decode_utf8 raw of
        None \<Rightarrow> None
      | Some text \<Rightarrow>
          (case serialize_file_map rest of
             None \<Rightarrow> None
           | Some cm \<Rightarrow> Some ((path, text) # cm)))"

text \<open>
  What \<open>call_tool("load_code", {"sandbox_id": v})\<close> answers on a server running
  tools.py: the argument is checked against the parameter's declared type \<open>str\<close>, the
  tool runs, its result is serialised.
\<close>

definition mcp_load_code :: "(string \<times> fsnode list) list \<Rightarrow> json \<Rightarrow> tool_error + (code_map \<times> string)" where
  "mcp_load_code sandboxes v =
     (case v of
        JStr sandbox_id \<Rightarrow>
          (case tools_load_code sandboxes sandbox_id of
             Inl e \<Rightarrow> Inl e
           | Inr (file_map, package_json) \<Rightarrow>
               (case serialize_file_map file_map of
                  None \<Rightarrow> Inl (SerializationError ''load_code'')
                | Some cm \<Rightarrow> Inr (cm, package_json)))
      | _ \<Rightarrow> Inl (ValidationError ''sandbox_id''))"

text \<open>
  \<open>edit_code\<close>: connect to the sandbox, upload every entry of \<open>code_map\<close>,
  return \<open>{"sandbox_id": ...}\<close>. The uploads change the sandbox only; nothing later in
  the same call reads them.
\<close>

definition tools_edit_code :: "(string \<times> fsnode list) list \<Rightarrow> string \<Rightarrow> code_map \<Rightarrow> tool_error + json" where
  "tools_edit_code sandboxes sandbox_id cm =
     (case map_of sandboxes sandbox_id of
        None \<Rightarrow> Inl (NotFoundError sandbox_id)
      | Some root \<Rightarrow> Inr (JObj [(''sandbox_id'', JStr sandbox_id)]))"

section \<open>The agent (agent.py, class \<open>Agent\<close>)\<close>

datatype error =
    KeyError string
  | TypeError
  | AttributeError
  | RemoteError tool_error
  | GenerationError string

text \<open>\<open>d[k]\<close> on a dict: a missing key raises \<open>KeyError\<close>.\<close>

definition dict_item :: "(string \<times> 'v) list \<Rightarrow> string \<Rightarrow> error + 'v" where
  "dict_item d k = (case map_of d k of None \<Rightarrow> Inl (KeyError k) | Some v \<Rightarrow> Inr v)"

record turn =
  role :: string
  content :: string

text \<open>
  The items of the generation stream (\<open>baml_client\<close>): a plan with its text and its
  state, and the files produced so far.
\<close>

record StreamPlan =
  plan_value :: string
  plan_state :: string

record StreamFile =
  file_path :: string
  file_content :: string

record PartialResult =
  p_plan :: StreamPlan
  p_files :: "StreamFile list"

text \<open>
  A stream is consumed item by item; it ends either normally or by raising after the
  items it has produced.
\<close>

record EditCodeStream =
  items :: "PartialResult list"
  failure :: "string option"

record CodeFile =
  cf_path :: string
  cf_content :: string

type_synonym EditCode = "turn list \<Rightarrow> string \<Rightarrow> CodeFile list \<Rightarrow> string \<Rightarrow> EditCodeStream"

text \<open>
  What the MCP session at \<open>mcp_url\<close> answers to \<open>list_tools\<close> and to each
  \<open>call_tool\<close>; a failed call raises. \<open>load_code\<close> and
  \<open>get_code_for_display\<close> are also called with a value taken from an inbound
  envelope, which may be any JSON value.
\<close>

record mcp_server =
  list_tools :: "tool_error + string list"
  tool_create_app_environment :: "tool_error + (string \<times> string) list"
  tool_load_code :: "json \<Rightarrow> tool_error + (code_map \<times> string)"
  tool_edit_code :: "string \<Rightarrow> code_map \<Rightarrow> tool_error + json"
  tool_get_code_for_display :: "json \<Rightarrow> tool_error + json"

record Agent =
  tools :: "string list"
  init_data :: "(string \<times> string) list"
  history :: "turn list"

definition Agent_init :: Agent where
  "Agent_init = \<lparr>tools = [], init_data = [], history = []\<rparr>"

definition remote :: "tool_error + 'a \<Rightarrow> error + 'a" where
  "remote r = (case r of Inl e \<Rightarrow> Inl (RemoteError e) | Inr v \<Rightarrow> Inr v)"

definition load_code :: "mcp_server \<Rightarrow> json \<Rightarrow> error + (code_map \<times> string)" where
  "load_code srv sandbox_id = remote (tool_load_code srv sandbox_id)"

definition edit_code :: "mcp_server \<Rightarrow> string \<Rightarrow> code_map \<Rightarrow> error + json" where
  "edit_code srv sandbox_id cm = remote (tool_edit_code srv sandbox_id cm)"

definition get_code_for_display :: "mcp_server \<Rightarrow> json \<Rightarrow> error + json" where
  "get_code_for_display srv sandbox_id = remote (tool_get_code_for_display srv sandbox_id)"

definition add_to_history :: "string \<Rightarrow> string \<Rightarrow> Agent \<Rightarrow> Agent" where
  "add_to_history user_feedback agent_plan a =
     a\<lparr>history := history a @ [\<lparr>role = ''user'', content = user_feedback\<rparr>,
                               \<lparr>role = ''assistant'', content = agent_plan\<rparr>]\<rparr>"

definition get_history :: "Agent \<Rightarrow> turn list" where
  "get_history a = map (\<lambda>msg. \<lparr>role = role msg, content = content msg\<rparr>) (history a)"

subsection \<open>\<open>send_feedback\<close>\<close>

text \<open>
  The state of one run of the generator: the world counters, the agent, the envelopes
  yielded so far (oldest first), the \<open>edit_code\<close> calls issued so far, and the locals
  \<open>sent_plan\<close> and \<open>new_code_map\<close>.
\<close>

record cycle =
  c_sys :: sys
  c_agent :: Agent
  c_out :: "json list"
  c_edits :: "(string \<times> code_map) list"
  c_sent_plan :: bool
  c_new_code_map :: code_map

definition start :: "Agent \<Rightarrow> sys \<Rightarrow> cycle" where
  "start a s = \<lparr>c_sys = s, c_agent = a, c_out = [], c_edits = [],
                c_sent_plan = False, c_new_code_map = []\<rparr>"

text \<open>\<open>yield Message.new(t, d, id=i).to_dict()\<close>\<close>

definition yield_message :: "MessageType \<Rightarrow> json \<Rightarrow> string option \<Rightarrow> cycle \<Rightarrow> cycle" where
  "yield_message t d i c =
     (let (m, s') = Message_new t d i (c_sys c)
      in c\<lparr>c_sys := s', c_out := c_out c @ [to_dict m]\<rparr>)"

text \<open>
  The inner loop \<open>for file in partial.files\<close>: the notification and the assignment
  \<open>new_code_map[file.path] = file.content\<close> are both under
  \<open>if file.path not in new_code_map\<close>.
\<close>

fun process_files :: "string \<Rightarrow> StreamFile list \<Rightarrow> cycle \<Rightarrow> cycle" where
  "process_files file_msg_id [] c = c"
| "process_files file_msg_id (f # fs) c =
     process_files file_msg_id fs
       (if map_of (c_new_code_map c) (file_path f) = None then
          (let c1 = yield_message UPDATE_FILE
                      (JObj [(''text'', JStr (''Working on '' @ file_path f))])
                      (Some file_msg_id) c
           in c1\<lparr>c_new_code_map :=
                   AList.update (file_path f) (file_content f) (c_new_code_map c1)\<rparr>)
        else c)"

text \<open>The body of \<open>for partial in stream\<close>.\<close>

definition process_partial :: "string \<Rightarrow> string \<Rightarrow> string \<Rightarrow> PartialResult \<Rightarrow> cycle \<Rightarrow> cycle" where
  "process_partial feedback plan_msg_id file_msg_id partial c =
     (let c1 = (if plan_state (p_plan partial) \<noteq> ''Complete'' \<and> \<not> c_sent_plan c then
                  yield_message AGENT_PARTIAL
                    (JObj [(''text'', JStr (plan_value (p_plan partial)))])
                    (Some plan_msg_id) c
                else c);
          c2 = (if plan_state (p_plan partial) = ''Complete'' \<and> \<not> c_sent_plan c1 then
                  (let c3 = yield_message AGENT_FINAL
                              (JObj [(''text'', JStr (plan_value (p_plan partial)))])
                              (Some plan_msg_id) c1
                   in c3\<lparr>c_agent := add_to_history feedback (plan_value (p_plan partial))
                                        (c_agent c3),
                          c_sent_plan := True\<rparr>)
                else c1)
      in process_files file_msg_id (p_files partial) c2)"

fun consume :: "string \<Rightarrow> string \<Rightarrow> string \<Rightarrow> PartialResult list \<Rightarrow> cycle \<Rightarrow> cycle" where
  "consume feedback plan_msg_id file_msg_id [] c = c"
| "consume feedback plan_msg_id file_msg_id (partial # rest) c =
     consume feedback plan_msg_id file_msg_id rest
       (process_partial feedback plan_msg_id file_msg_id partial c)"

text \<open>
  Steps 2 to 5 of \<open>send_feedback\<close>: look \<open>sandbox_id\<close> up in \<open>init_data\<close>, load
  the code, reformat it as a list of \<open>{path, content}\<close>, read the history and open the
  stream. Either the lookup or the load may raise.
\<close>

definition open_stream :: "mcp_server \<Rightarrow> EditCode \<Rightarrow> Agent \<Rightarrow> string \<Rightarrow> error + EditCodeStream" where
  "open_stream srv model_client a feedback =
     (case dict_item (init_data a) ''sandbox_id'' of
        Inl e \<Rightarrow> Inl e
      | Inr sandbox_id \<Rightarrow>
          (case load_code srv (JStr sandbox_id) of
             Inl e \<Rightarrow> Inl e
           | Inr (code_map, package_json) \<Rightarrow>
               (let code_files = map (\<lambda>(path, content).
                                        \<lparr>cf_path = path, cf_content = content\<rparr>) code_map;
                    hist = get_history a
                in Inr (model_client hist feedback code_files package_json))))"

text \<open>
  Steps 7 and 8 of \<open>send_feedback\<close>: call \<open>edit_code\<close> with
  \<open>new_code_map\<close>, then yield \<open>update_completed\<close>. The call is recorded before
  its outcome is known.
\<close>

definition commit :: "mcp_server \<Rightarrow> cycle \<Rightarrow> cycle \<times> error option" where
  "commit srv c1 =
     (case dict_item (init_data (c_agent c1)) ''sandbox_id'' of
        Inl e \<Rightarrow> (c1, Some e)
      | Inr sandbox_id \<Rightarrow>
          (let c2 = c1\<lparr>c_edits := c_edits c1 @ [(sandbox_id, c_new_code_map c1)]\<rparr>
           in case edit_code srv sandbox_id (c_new_code_map c1) of
                Inl e \<Rightarrow> (c2, Some e)
              | Inr r \<Rightarrow> (yield_message UPDATE_COMPLETED (JObj []) None c2, None)))"

text \<open>
  One whole run of \<open>send_feedback\<close>, consumed to its end: the final state, and the
  exception that ended it if one did.
\<close>

definition send_feedback :: "mcp_server \<Rightarrow> EditCode \<Rightarrow> Agent \<Rightarrow> sys \<Rightarrow> string \<Rightarrow> cycle \<times> error option" where
  "send_feedback srv model_client a s feedback =
     (let c0 = yield_message UPDATE_IN_PROGRESS (JObj []) None (start a s) in
      case open_stream srv model_client (c_agent c0) feedback of
        Inl e \<Rightarrow> (c0, Some e)
      | Inr stream \<Rightarrow>
          (let (plan_msg_id, s1) = uuid4_str (c_sys c0);
               (file_msg_id, s2) = uuid4_str s1;
               c1 = consume feedback plan_msg_id file_msg_id (items stream) (c0\<lparr>c_sys := s2\<rparr>)
           in case failure stream of
                Some msg \<Rightarrow> (c1, Some (GenerationError msg))
              | None \<Rightarrow> commit srv c1))"

text \<open>Fixtures: a world, a server over one sandbox, an initialised agent and two streams.\<close>

definition ex_sys :: sys where
  "ex_sys = \<lparr>uuid_src = (\<lambda>n. ''uuid-'' @ replicate n (CHR ''x'')), uuid_calls = 0,
             time_src = (\<lambda>n. 1700000000000000000 + int n), time_calls = 0\<rparr>"

definition ex_sandboxes :: "(string \<times> fsnode list) list" where
  "ex_sandboxes =
     [(''sb1'', [FsDir ''src'' [FsFile ''App.tsx'' ''old'',
                                 FsDir ''lib'' [FsFile ''utils.ts'' ''u'']],
                 FsFile ''package.json'' ''{}''])]"

definition ex_server :: mcp_server where
  "ex_server =
     \<lparr>list_tools = Inr [''create_app_environment'', ''load_code'', ''edit_code''],
      tool_create_app_environment = Inr [(''url'', ''https://preview''), (''sandbox_id'', ''sb1'')],
      tool_load_code = mcp_load_code ex_sandboxes,
      tool_edit_code = tools_edit_code ex_sandboxes,
      tool_get_code_for_display = (\<lambda>v. Inl (TransientError ''unavailable''))\<rparr>"

definition ex_agent :: Agent where
  "ex_agent = \<lparr>tools = [], init_data = [(''url'', ''https://preview''), (''sandbox_id'', ''sb1'')],
               history = []\<rparr>"

definition ex_first :: PartialResult where
  "ex_first = \<lparr>p_plan = \<lparr>plan_value = ''Edit'', plan_state = ''InProgress''\<rparr>,
               p_files = [\<lparr>file_path = ''src/App.tsx'', file_content = ''v1''\<rparr>]\<rparr>"

definition ex_second :: PartialResult where
  "ex_second = \<lparr>p_plan = \<lparr>plan_value = ''Edit App'', plan_state = ''Complete''\<rparr>,
                p_files = [\<lparr>file_path = ''src/App.tsx'', file_content = ''v2''\<rparr>]\<rparr>"

definition ex_items :: "PartialResult list" where
  "ex_items = [ex_first, ex_second]"

definition ex_model :: EditCode where
  "ex_model hist feedback code_files package_json = \<lparr>items = ex_items, failure = None\<rparr>"

definition ex_model_failing :: EditCode where
  "ex_model_failing hist feedback code_files package_json =
     \<lparr>items = ex_items, failure = Some ''connection reset''\<rparr>"

definition ex_model_empty :: EditCode where
  "ex_model_empty hist feedback code_files package_json = \<lparr>items = [], failure = None\<rparr>"

definition ex_agent_stale :: Agent where
  "ex_agent_stale = \<lparr>tools = [], init_data = [(''sandbox_id'', ''gone'')], history = []\<rparr>"

subsection \<open>\<open>handler\<close>\<close>

text \<open>\<open>v[k]\<close> on a parsed JSON value: only a dict can be indexed by a string.\<close>

fun json_item :: "json \<Rightarrow> string \<Rightarrow> error + json" where
  "json_item (JObj kvs) k = dict_item kvs k"
| "json_item v k = Inl TypeError"

definition json_of_code_map :: "code_map \<Rightarrow> json" where
  "json_of_code_map cm = JObj (map (\<lambda>(path, content). (path, JStr content)) cm)"

text \<open>
  The \<open>load_code\<close> tool returns a tuple; \<open>json.loads\<close> of its text gives a
  two-element array.
\<close>

definition json_of_load :: "code_map \<times> string \<Rightarrow> json" where
  "json_of_load r = JArr [json_of_code_map (fst r), JStr (snd r)]"

definition agent_init :: "mcp_server \<Rightarrow> Agent \<Rightarrow> error + Agent" where
  "agent_init srv a =
     (case remote (list_tools srv) of
        Inl e \<Rightarrow> Inl e
      | Inr ts \<Rightarrow>
          (case remote (tool_create_app_environment srv) of
             Inl e \<Rightarrow> Inl e
           | Inr d \<Rightarrow> Inr (a\<lparr>tools := ts, init_data := d\<rparr>)))"

text \<open>
  What \<open>handler\<close> returns. For a \<open>user\<close> envelope it is the generator
  \<open>agent.send_feedback(v)\<close>, not yet consumed (calling a generator function runs
  none of its body), given here by the value \<open>v\<close> it was called with; its run on a
  string is \<open>send_feedback\<close> above. Otherwise it is one dict.
\<close>

datatype handler_result = Generator json | Reply json

text \<open>
  \<open>handler\<close> on the parsed event. The values taken from \<open>msg["data"]\<close> are
  passed on as they are.
\<close>

definition handler :: "mcp_server \<Rightarrow> json \<Rightarrow> Agent \<Rightarrow> sys \<Rightarrow> error + (handler_result \<times> Agent \<times> sys)" where
  "handler srv msg agent s =
     (case msg of
        JObj kvs \<Rightarrow>
          (let ty = map_of kvs ''type'' in
           if ty = Some (JStr (MessageType_value USER)) then
             (case json_item msg ''data'' of Inl e \<Rightarrow> Inl e | Inr d \<Rightarrow>
               (case json_item d ''text'' of Inl e \<Rightarrow> Inl e | Inr text \<Rightarrow>
                  Inr (Generator text, agent, s)))
           else if ty = Some (JStr (MessageType_value INIT)) then
             (case agent_init srv agent of Inl e \<Rightarrow> Inl e | Inr agent' \<Rightarrow>
               (let (m, s') = Message_new INIT
                               (JObj (map (\<lambda>(k, v). (k, JStr v)) (init_data agent'))) None s
                in Inr (Reply (to_dict m), agent', s')))
           else if ty = Some (JStr (MessageType_value LOAD_CODE)) then
             (case json_item msg ''data'' of Inl e \<Rightarrow> Inl e | Inr d \<Rightarrow>
               (case json_item d ''sandbox_id'' of Inl e \<Rightarrow> Inl e | Inr sandbox_id \<Rightarrow>
                 (case load_code srv sandbox_id of Inl e \<Rightarrow> Inl e | Inr code_map \<Rightarrow>
                   (let (m, s') = Message_new LOAD_CODE (json_of_load code_map) None s
                    in Inr (Reply (to_dict m), agent, s')))))
           else if ty = Some (JStr (MessageType_value GET_CODE_FOR_DISPLAY)) then
             (case json_item msg ''data'' of Inl e \<Rightarrow> Inl e | Inr d \<Rightarrow>
               (case json_item d ''sandbox_id'' of Inl e \<Rightarrow> Inl e | Inr sandbox_id \<Rightarrow>
                 (case get_code_for_display srv sandbox_id of Inl e \<Rightarrow> Inl e | Inr code_data \<Rightarrow>
                   (let (m, s') = Message_new CODE_DISPLAY_RESPONSE code_data None s
                    in Inr (Reply (to_dict m), agent, s')))))
           else Inr (Reply (JObj []), agent, s))
      | _ \<Rightarrow> Inl AttributeError)"

section \<open>Observations on a run\<close>

definition is_complete :: "PartialResult \<Rightarrow> bool" where
  "is_complete partial = (plan_state (p_plan partial) = ''Complete'')"

text \<open>Every \<open>(path, content)\<close> entry of the stream's \<open>files\<close> lists, in arrival order.\<close>

definition stream_files :: "PartialResult list \<Rightarrow> (string \<times> string) list" where
  "stream_files ps =
     concat (map (\<lambda>partial. map (\<lambda>f. (file_path f, file_content f)) (p_files partial)) ps)"

definition count_type :: "MessageType \<Rightarrow> json list \<Rightarrow> nat" where
  "count_type t out = length (filter (is_type t) out)"

definition turn_pair :: "string \<Rightarrow> string \<Rightarrow> turn list" where
  "turn_pair feedback plan_text =
     [\<lparr>role = ''user'', content = feedback\<rparr>, \<lparr>role = ''assistant'', content = plan_text\<rparr>]"



definition ex_sandboxes_binary :: "(string \<times> fsnode list) list" where
  "ex_sandboxes_binary =
     [(''sb2'', [FsDir ''src'' [FsFile ''App.tsx'' ''old'',
                                 FsFile ''logo.png'' [CHR 0xFF, CHR 0xD8]],
                 FsFile ''package.json'' ''{}''])]"


section \<open>Lemmas on the loop\<close>

lemma MessageType_value_inj: "MessageType_value t = MessageType_value u \<longleftrightarrow> t = u"
  by (cases t; cases u; simp)

lemma env_type_to_dict: "env_type (to_dict m) = Some (MessageType_value (msg_type m))"
  by (simp add: env_type_def to_dict_def)

lemma env_id_to_dict: "env_id (to_dict m) = Some (msg_id m)"
  by (simp add: env_id_def to_dict_def)

lemma is_type_to_dict: "is_type t (to_dict m) \<longleftrightarrow> msg_type m = t"
  by (auto simp: is_type_def env_type_to_dict MessageType_value_inj)

lemma Message_new_type: "msg_type (fst (Message_new t d i s)) = t"
  by (simp add: Message_new_def uuid4_str_def time_ns_def split: option.splits prod.splits)

lemma Message_new_id_given: "x \<noteq> [] \<Longrightarrow> msg_id (fst (Message_new t d (Some x) s)) = x"
  by (simp add: Message_new_def uuid4_str_def time_ns_def split: option.splits prod.splits)

lemma yield_message_out:
  "c_out (yield_message t d i c) = c_out c @ [to_dict (fst (Message_new t d i (c_sys c)))]"
  by (simp add: yield_message_def split: prod.splits)

lemma yield_message_frame:
  "c_agent (yield_message t d i c) = c_agent c"
  "c_edits (yield_message t d i c) = c_edits c"
  "c_sent_plan (yield_message t d i c) = c_sent_plan c"
  "c_new_code_map (yield_message t d i c) = c_new_code_map c"
  by (simp_all add: yield_message_def split: prod.splits)

lemma process_files_frame:
  "c_agent (process_files fid fs c) = c_agent c \<and>
   c_edits (process_files fid fs c) = c_edits c \<and>
   c_sent_plan (process_files fid fs c) = c_sent_plan c"
  by (induction fs arbitrary: c) (simp_all add: yield_message_frame Let_def)

lemma update_absent: "k \<notin> fst ` set al \<Longrightarrow> AList.update k v al = al @ [(k, v)]"
  by (induction al) auto

lemma process_files_seen:
  "map_of (c_new_code_map c) (file_path f) = Some v \<Longrightarrow>
   process_files fid (f # fs) c = process_files fid fs c"
  by simp

lemma process_files_new:
  "map_of (c_new_code_map c) (file_path f) = None \<Longrightarrow>
   process_files fid (f # fs) c =
   process_files fid fs
     ((yield_message UPDATE_FILE (JObj [(''text'', JStr (''Working on '' @ file_path f))])
         (Some fid) c)
      \<lparr>c_new_code_map := c_new_code_map c @ [(file_path f, file_content f)]\<rparr>)"
  by (simp add: Let_def yield_message_frame update_absent map_of_eq_None_iff)

lemma process_files_out:
  "\<exists>ys. c_out (process_files fid fs c) = c_out c @ ys \<and>
        (\<forall>y\<in>set ys. \<exists>m. y = to_dict m \<and> msg_type m = UPDATE_FILE \<and>
                              (fid \<noteq> [] \<longrightarrow> msg_id m = fid))"
proof (induction fs arbitrary: c)
  case Nil
  show ?case by simp
next
  case (Cons f fs)
  show ?case
  proof (cases "map_of (c_new_code_map c) (file_path f)")
    case (Some v)
    then show ?thesis using Cons.IH [of c] by (simp only: process_files_seen)
  next
    case None
    let ?d = "JObj [(''text'', JStr (''Working on '' @ file_path f))]"
    let ?c2 = "(yield_message UPDATE_FILE ?d (Some fid) c)
                 \<lparr>c_new_code_map := c_new_code_map c @ [(file_path f, file_content f)]\<rparr>"
    let ?m = "fst (Message_new UPDATE_FILE ?d (Some fid) (c_sys c))"
    from Cons.IH [of ?c2] obtain ys where
      ys: "c_out (process_files fid fs ?c2) = c_out ?c2 @ ys"
          "\<forall>y\<in>set ys. \<exists>m. y = to_dict m \<and> msg_type m = UPDATE_FILE \<and>
                              (fid \<noteq> [] \<longrightarrow> msg_id m = fid)"
      by blast
    have out2: "c_out ?c2 = c_out c @ [to_dict ?m]"
      by (simp add: yield_message_out)
    have m: "msg_type ?m = UPDATE_FILE \<and> (fid \<noteq> [] \<longrightarrow> msg_id ?m = fid)"
      by (simp add: Message_new_type Message_new_id_given)
    have "c_out (process_files fid (f # fs) c) = c_out c @ (to_dict ?m # ys)"
      using ys(1) out2 by (simp only: process_files_new [OF None]) simp
    moreover have "\<forall>y\<in>set (to_dict ?m # ys). \<exists>m. y = to_dict m \<and> msg_type m = UPDATE_FILE \<and>
                              (fid \<noteq> [] \<longrightarrow> msg_id m = fid)"
      using ys(2) m by auto
    ultimately show ?thesis by blast
  qed
qed

lemma process_files_count:
  "length (filter (is_type UPDATE_FILE) (c_out (process_files fid fs c))) + length (c_new_code_map c)
   = length (filter (is_type UPDATE_FILE) (c_out c)) + length (c_new_code_map (process_files fid fs c))"
proof (induction fs arbitrary: c)
  case Nil
  show ?case by simp
next
  case (Cons f fs)
  show ?case
  proof (cases "map_of (c_new_code_map c) (file_path f)")
    case (Some v)
    then show ?thesis using Cons.IH [of c] by (simp only: process_files_seen)
  next
    case None
    let ?d = "JObj [(''text'', JStr (''Working on '' @ file_path f))]"
    let ?c2 = "(yield_message UPDATE_FILE ?d (Some fid) c)
                 \<lparr>c_new_code_map := c_new_code_map c @ [(file_path f, file_content f)]\<rparr>"
    have len: "length (c_new_code_map ?c2) = Suc (length (c_new_code_map c))"
      by simp
    have cnt: "length (filter (is_type UPDATE_FILE) (c_out ?c2))
               = Suc (length (filter (is_type UPDATE_FILE) (c_out c)))"
      by (simp add: yield_message_out is_type_to_dict Message_new_type)
    show ?thesis using Cons.IH [of ?c2] len cnt
      by (simp add: process_files_new [OF None] del: process_files.simps)
  qed
qed

lemma map_of_append_seen:
  "map_of xs k = Some v \<Longrightarrow> map_of (xs @ (k, w) # ys) = map_of (xs @ ys)"
  by (auto simp: map_add_def fun_eq_iff split: option.splits)

lemma process_files_map:
  "map_of (c_new_code_map (process_files fid fs c))
   = map_of (c_new_code_map c @ map (\<lambda>f. (file_path f, file_content f)) fs)"
proof (induction fs arbitrary: c)
  case Nil
  show ?case by simp
next
  case (Cons f fs)
  show ?case
  proof (cases "map_of (c_new_code_map c) (file_path f)")
    case (Some v)
    show ?thesis using Cons.IH [of c] map_of_append_seen [OF Some]
      by (simp only: process_files_seen [OF Some] list.map)
  next
    case None
    let ?d = "JObj [(''text'', JStr (''Working on '' @ file_path f))]"
    let ?c2 = "(yield_message UPDATE_FILE ?d (Some fid) c)
                 \<lparr>c_new_code_map := c_new_code_map c @ [(file_path f, file_content f)]\<rparr>"
    show ?thesis using Cons.IH [of ?c2]
      by (simp add: process_files_new [OF None] del: process_files.simps)
  qed
qed


lemma process_files_other:
  assumes "t \<noteq> UPDATE_FILE"
  shows "filter (is_type t) (c_out (process_files fid fs c)) = filter (is_type t) (c_out c)"
proof -
  from process_files_out [of fid fs c] obtain ys where
    ys: "c_out (process_files fid fs c) = c_out c @ ys"
        "\<forall>y\<in>set ys. \<exists>m. y = to_dict m \<and> msg_type m = UPDATE_FILE \<and>
                              (fid \<noteq> [] \<longrightarrow> msg_id m = fid)"
    by blast
  have "filter (is_type t) ys = []"
    using ys(2) assms by (auto simp: filter_empty_conv is_type_to_dict)
  then show ?thesis using ys(1) by simp
qed

lemma process_partial_sent:
  "c_sent_plan c \<Longrightarrow>
   process_partial fb pid fid p c = process_files fid (p_files p) c"
  by (simp add: process_partial_def)

lemma process_partial_in_progress:
  "\<not> c_sent_plan c \<Longrightarrow> \<not> is_complete p \<Longrightarrow>
   process_partial fb pid fid p c =
   process_files fid (p_files p)
     (yield_message AGENT_PARTIAL (JObj [(''text'', JStr (plan_value (p_plan p)))]) (Some pid) c)"
  by (simp add: process_partial_def is_complete_def)

lemma process_partial_complete:
  "\<not> c_sent_plan c \<Longrightarrow> is_complete p \<Longrightarrow>
   process_partial fb pid fid p c =
   process_files fid (p_files p)
     ((yield_message AGENT_FINAL (JObj [(''text'', JStr (plan_value (p_plan p)))]) (Some pid) c)
      \<lparr>c_agent := add_to_history fb (plan_value (p_plan p)) (c_agent c), c_sent_plan := True\<rparr>)"
  by (simp add: process_partial_def is_complete_def Let_def yield_message_frame)

lemma process_partial_cases:
  obtains
    (sent) "c_sent_plan c" "process_partial fb pid fid p c = process_files fid (p_files p) c"
  | (in_progress) "\<not> c_sent_plan c" "\<not> is_complete p"
      "process_partial fb pid fid p c =
       process_files fid (p_files p)
         (yield_message AGENT_PARTIAL (JObj [(''text'', JStr (plan_value (p_plan p)))]) (Some pid) c)"
  | (complete) "\<not> c_sent_plan c" "is_complete p"
      "process_partial fb pid fid p c =
       process_files fid (p_files p)
         ((yield_message AGENT_FINAL (JObj [(''text'', JStr (plan_value (p_plan p)))]) (Some pid) c)
          \<lparr>c_agent := add_to_history fb (plan_value (p_plan p)) (c_agent c), c_sent_plan := True\<rparr>)"
  using process_partial_sent process_partial_in_progress process_partial_complete by blast

lemma process_partial_edits: "c_edits (process_partial fb pid fid p c) = c_edits c"
  by (rule process_partial_cases [of c fb pid fid p])
     (simp_all add: process_files_frame yield_message_frame)

lemma process_partial_init_data:
  "init_data (c_agent (process_partial fb pid fid p c)) = init_data (c_agent c)"
  by (rule process_partial_cases [of c fb pid fid p])
     (simp_all add: process_files_frame yield_message_frame add_to_history_def)

lemma process_partial_sent_plan:
  "c_sent_plan (process_partial fb pid fid p c) = (c_sent_plan c \<or> is_complete p)"
  by (rule process_partial_cases [of c fb pid fid p])
     (simp_all add: process_files_frame yield_message_frame)

lemma process_partial_history:
  "history (c_agent (process_partial fb pid fid p c)) =
   (if is_complete p \<and> \<not> c_sent_plan c
    then history (c_agent c) @ turn_pair fb (plan_value (p_plan p))
    else history (c_agent c))"
  by (rule process_partial_cases [of c fb pid fid p])
     (simp_all add: process_files_frame yield_message_frame add_to_history_def turn_pair_def)

lemma process_partial_map:
  "map_of (c_new_code_map (process_partial fb pid fid p c))
   = map_of (c_new_code_map c @ map (\<lambda>f. (file_path f, file_content f)) (p_files p))"
  by (rule process_partial_cases [of c fb pid fid p])
     (simp_all add: process_files_map yield_message_frame)

lemma process_partial_count_file:
  "count_type UPDATE_FILE (c_out (process_partial fb pid fid p c)) + length (c_new_code_map c)
   = count_type UPDATE_FILE (c_out c) + length (c_new_code_map (process_partial fb pid fid p c))"
proof (rule process_partial_cases [of c fb pid fid p])
  assume "process_partial fb pid fid p c = process_files fid (p_files p) c"
  then show ?thesis using process_files_count [of fid "p_files p" c]
    by (simp add: count_type_def)
next
  let ?c1 = "yield_message AGENT_PARTIAL (JObj [(''text'', JStr (plan_value (p_plan p)))]) (Some pid) c"
  assume "process_partial fb pid fid p c = process_files fid (p_files p) ?c1"
  then show ?thesis using process_files_count [of fid "p_files p" ?c1]
    by (simp add: count_type_def yield_message_out yield_message_frame is_type_to_dict Message_new_type)
next
  let ?c1 = "(yield_message AGENT_FINAL (JObj [(''text'', JStr (plan_value (p_plan p)))]) (Some pid) c)
          \<lparr>c_agent := add_to_history fb (plan_value (p_plan p)) (c_agent c), c_sent_plan := True\<rparr>"
  assume "process_partial fb pid fid p c = process_files fid (p_files p) ?c1"
  then show ?thesis using process_files_count [of fid "p_files p" ?c1]
    by (simp add: count_type_def yield_message_out yield_message_frame is_type_to_dict Message_new_type)
qed

lemma process_partial_count_final:
  "count_type AGENT_FINAL (c_out (process_partial fb pid fid p c))
   = count_type AGENT_FINAL (c_out c) + (if is_complete p \<and> \<not> c_sent_plan c then 1 else 0)"
  by (rule process_partial_cases [of c fb pid fid p])
     (simp_all add: count_type_def process_files_other yield_message_out is_type_to_dict
        Message_new_type)

lemma process_partial_out:
  "\<exists>ys. c_out (process_partial fb pid fid p c) = c_out c @ ys \<and>
     (\<forall>y\<in>set ys. \<exists>m. y = to_dict m \<and>
        ((msg_type m = AGENT_PARTIAL \<or> msg_type m = AGENT_FINAL) \<and> (pid \<noteq> [] \<longrightarrow> msg_id m = pid)
         \<or> msg_type m = UPDATE_FILE \<and> (fid \<noteq> [] \<longrightarrow> msg_id m = fid)))"
proof -
  have step: "\<exists>ys. c_out (process_files fid fs c1) = c_out c @ ys \<and>
     (\<forall>y\<in>set ys. \<exists>m. y = to_dict m \<and>
        ((msg_type m = AGENT_PARTIAL \<or> msg_type m = AGENT_FINAL) \<and> (pid \<noteq> [] \<longrightarrow> msg_id m = pid)
         \<or> msg_type m = UPDATE_FILE \<and> (fid \<noteq> [] \<longrightarrow> msg_id m = fid)))"
    if c1: "c_out c1 = c_out c @ xs"
       and xs: "\<forall>y\<in>set xs. \<exists>m. y = to_dict m \<and>
                 (msg_type m = AGENT_PARTIAL \<or> msg_type m = AGENT_FINAL) \<and> (pid \<noteq> [] \<longrightarrow> msg_id m = pid)"
    for c1 xs fs
  proof -
    from process_files_out [of fid fs c1] obtain ys where
      ys: "c_out (process_files fid fs c1) = c_out c1 @ ys"
          "\<forall>y\<in>set ys. \<exists>m. y = to_dict m \<and> msg_type m = UPDATE_FILE \<and>
                              (fid \<noteq> [] \<longrightarrow> msg_id m = fid)"
      by blast
    have "c_out (process_files fid fs c1) = c_out c @ (xs @ ys)"
      using ys(1) c1 by simp
    moreover have "\<forall>y\<in>set (xs @ ys). \<exists>m. y = to_dict m \<and>
        ((msg_type m = AGENT_PARTIAL \<or> msg_type m = AGENT_FINAL) \<and> (pid \<noteq> [] \<longrightarrow> msg_id m = pid)
         \<or> msg_type m = UPDATE_FILE \<and> (fid \<noteq> [] \<longrightarrow> msg_id m = fid))"
      using xs ys(2) by (metis Un_iff set_append)
    ultimately show ?thesis by blast
  qed
  show ?thesis
  proof (rule process_partial_cases [of c fb pid fid p])
    assume eq: "process_partial fb pid fid p c = process_files fid (p_files p) c"
    show ?thesis unfolding eq by (rule step [of c "[]"]) simp_all
  next
    let ?d = "JObj [(''text'', JStr (plan_value (p_plan p)))]"
    let ?c1 = "yield_message AGENT_PARTIAL ?d (Some pid) c"
    assume eq: "process_partial fb pid fid p c = process_files fid (p_files p) ?c1"
    show ?thesis unfolding eq
      by (rule step [of ?c1 "[to_dict (fst (Message_new AGENT_PARTIAL ?d (Some pid) (c_sys c)))]"])
         (auto simp: yield_message_out Message_new_type Message_new_id_given)
  next
    let ?d = "JObj [(''text'', JStr (plan_value (p_plan p)))]"
    let ?c1 = "(yield_message AGENT_FINAL ?d (Some pid) c)
          \<lparr>c_agent := add_to_history fb (plan_value (p_plan p)) (c_agent c), c_sent_plan := True\<rparr>"
    assume eq: "process_partial fb pid fid p c = process_files fid (p_files p) ?c1"
    show ?thesis unfolding eq
      by (rule step [of ?c1 "[to_dict (fst (Message_new AGENT_FINAL ?d (Some pid) (c_sys c)))]"])
         (auto simp: yield_message_out Message_new_type Message_new_id_given)
  qed
qed


lemma consume_edits: "c_edits (consume fb pid fid ps c) = c_edits c"
  by (induction ps arbitrary: c) (simp_all add: process_partial_edits)

lemma consume_init_data: "init_data (c_agent (consume fb pid fid ps c)) = init_data (c_agent c)"
  by (induction ps arbitrary: c) (simp_all add: process_partial_init_data)

lemma consume_sent_plan:
  "c_sent_plan (consume fb pid fid ps c) = (c_sent_plan c \<or> (\<exists>p\<in>set ps. is_complete p))"
  by (induction ps arbitrary: c) (auto simp: process_partial_sent_plan)

lemma consume_history:
  "history (c_agent (consume fb pid fid ps c)) =
   (if c_sent_plan c then history (c_agent c)
    else (case find is_complete ps of
            None \<Rightarrow> history (c_agent c)
          | Some p \<Rightarrow> history (c_agent c) @ turn_pair fb (plan_value (p_plan p))))"
  by (induction ps arbitrary: c)
     (auto simp: process_partial_history process_partial_sent_plan split: option.splits)

lemma consume_map:
  "map_of (c_new_code_map (consume fb pid fid ps c))
   = map_of (c_new_code_map c @ stream_files ps)"
proof (induction ps arbitrary: c)
  case Nil
  show ?case by (simp add: stream_files_def)
next
  case (Cons p ps)
  have "map_of (c_new_code_map (consume fb pid fid (p # ps) c))
        = map_of (c_new_code_map (process_partial fb pid fid p c) @ stream_files ps)"
    using Cons.IH by simp
  also have "\<dots> = map_of (stream_files ps) ++ map_of (c_new_code_map (process_partial fb pid fid p c))"
    by simp
  also have "\<dots> = map_of (stream_files ps) ++
                 map_of (c_new_code_map c @ map (\<lambda>f. (file_path f, file_content f)) (p_files p))"
    by (simp only: process_partial_map)
  also have "\<dots> = map_of (c_new_code_map c @ stream_files (p # ps))"
    by (simp add: stream_files_def)
  finally show ?case .
qed

lemma consume_count_file:
  "count_type UPDATE_FILE (c_out (consume fb pid fid ps c)) + length (c_new_code_map c)
   = count_type UPDATE_FILE (c_out c) + length (c_new_code_map (consume fb pid fid ps c))"
proof (induction ps arbitrary: c)
  case Nil
  show ?case by simp
next
  case (Cons p ps)
  show ?case
    using Cons.IH [of "process_partial fb pid fid p c"]
          process_partial_count_file [of fb pid fid p c]
    by simp
qed

lemma consume_count_final:
  "count_type AGENT_FINAL (c_out (consume fb pid fid ps c))
   = count_type AGENT_FINAL (c_out c)
     + (if \<not> c_sent_plan c \<and> (\<exists>p\<in>set ps. is_complete p) then 1 else 0)"
  by (induction ps arbitrary: c)
     (auto simp: process_partial_count_final process_partial_sent_plan)

lemma consume_out:
  "\<exists>ys. c_out (consume fb pid fid ps c) = c_out c @ ys \<and>
     (\<forall>y\<in>set ys. \<exists>m. y = to_dict m \<and>
        ((msg_type m = AGENT_PARTIAL \<or> msg_type m = AGENT_FINAL) \<and> (pid \<noteq> [] \<longrightarrow> msg_id m = pid)
         \<or> msg_type m = UPDATE_FILE \<and> (fid \<noteq> [] \<longrightarrow> msg_id m = fid)))"
proof (induction ps arbitrary: c)
  case Nil
  show ?case by simp
next
  case (Cons p ps)
  let ?Q = "\<lambda>y. \<exists>m. y = to_dict m \<and>
        ((msg_type m = AGENT_PARTIAL \<or> msg_type m = AGENT_FINAL) \<and> (pid \<noteq> [] \<longrightarrow> msg_id m = pid)
         \<or> msg_type m = UPDATE_FILE \<and> (fid \<noteq> [] \<longrightarrow> msg_id m = fid))"
  from process_partial_out [of fb pid fid p c] obtain xs where
    xs: "c_out (process_partial fb pid fid p c) = c_out c @ xs" "\<forall>y\<in>set xs. ?Q y"
    by blast
  from Cons.IH [of "process_partial fb pid fid p c"] obtain ys where
    ys: "c_out (consume fb pid fid ps (process_partial fb pid fid p c))
         = c_out (process_partial fb pid fid p c) @ ys" "\<forall>y\<in>set ys. ?Q y"
    by blast
  have "c_out (consume fb pid fid (p # ps) c) = c_out c @ (xs @ ys)"
    using xs(1) ys(1) by simp
  moreover have "\<forall>y\<in>set (xs @ ys). ?Q y"
    using xs(2) ys(2) by (metis Un_iff set_append)
  ultimately show ?case by blast
qed

lemma process_files_distinct:
  "distinct (map fst (c_new_code_map c)) \<Longrightarrow>
   distinct (map fst (c_new_code_map (process_files fid fs c)))"
proof (induction fs arbitrary: c)
  case Nil
  then show ?case by simp
next
  case (Cons f fs)
  show ?case
  proof (cases "map_of (c_new_code_map c) (file_path f)")
    case (Some v)
    then show ?thesis using Cons by (simp only: process_files_seen)
  next
    case None
    let ?d = "JObj [(''text'', JStr (''Working on '' @ file_path f))]"
    let ?c2 = "(yield_message UPDATE_FILE ?d (Some fid) c)
                 \<lparr>c_new_code_map := c_new_code_map c @ [(file_path f, file_content f)]\<rparr>"
    have "distinct (map fst (c_new_code_map ?c2))"
      using None Cons.prems by (simp add: map_of_eq_None_iff)
    then show ?thesis using Cons.IH [of ?c2]
      by (simp add: process_files_new [OF None] del: process_files.simps)
  qed
qed

lemma process_partial_distinct:
  "distinct (map fst (c_new_code_map c)) \<Longrightarrow>
   distinct (map fst (c_new_code_map (process_partial fb pid fid p c)))"
  by (rule process_partial_cases [of c fb pid fid p])
     (simp_all add: process_files_distinct yield_message_frame)

lemma consume_distinct:
  "distinct (map fst (c_new_code_map c)) \<Longrightarrow>
   distinct (map fst (c_new_code_map (consume fb pid fid ps c)))"
  by (induction ps arbitrary: c) (simp_all add: process_partial_distinct)

lemma consume_length_map:
  assumes "c_new_code_map c = []"
  shows "length (c_new_code_map (consume fb pid fid ps c)) = card (fst ` set (stream_files ps))"
proof -
  let ?m = "c_new_code_map (consume fb pid fid ps c)"
  have d: "distinct (map fst ?m)"
    using assms by (simp add: consume_distinct)
  have "dom (map_of ?m) = dom (map_of (stream_files ps))"
    using consume_map [of fb pid fid ps c] assms by simp
  then have "fst ` set ?m = fst ` set (stream_files ps)"
    by (simp add: dom_map_of_conv_image_fst)
  moreover have "length ?m = card (fst ` set ?m)"
    using distinct_card [OF d] by simp
  ultimately show ?thesis by simp
qed


lemma consume_snoc:
  "consume fb pid fid (pre @ [p]) c = process_partial fb pid fid p (consume fb pid fid pre c)"
  by (induction pre arbitrary: c) simp_all

lemma first_yield:
  "c_out (yield_message UPDATE_IN_PROGRESS (JObj []) None (start a s))
     = [to_dict (fst (Message_new UPDATE_IN_PROGRESS (JObj []) None s))]"
  "c_agent (yield_message UPDATE_IN_PROGRESS (JObj []) None (start a s)) = a"
  "c_edits (yield_message UPDATE_IN_PROGRESS (JObj []) None (start a s)) = []"
  "c_sent_plan (yield_message UPDATE_IN_PROGRESS (JObj []) None (start a s)) = False"
  "c_new_code_map (yield_message UPDATE_IN_PROGRESS (JObj []) None (start a s)) = []"
  by (simp_all add: yield_message_out yield_message_frame) (simp_all add: start_def)

lemma first_yield_sys:
  "c_sys (yield_message UPDATE_IN_PROGRESS (JObj []) None (start a s))
     = s\<lparr>uuid_calls := Suc (uuid_calls s), time_calls := Suc (time_calls s)\<rparr>"
  by (simp add: yield_message_def Message_new_def uuid4_str_def time_ns_def start_def)

lemma send_feedback_not_opened:
  "open_stream srv mc a fb = Inl e \<Longrightarrow>
   send_feedback srv mc a s fb
     = (yield_message UPDATE_IN_PROGRESS (JObj []) None (start a s), Some e)"
  by (simp add: send_feedback_def Let_def first_yield)

lemma send_feedback_opened:
  assumes "open_stream srv mc a fb = Inr st"
  shows "\<exists>c. c_out c = [to_dict (fst (Message_new UPDATE_IN_PROGRESS (JObj []) None s))] \<and>
             c_agent c = a \<and> c_edits c = [] \<and> \<not> c_sent_plan c \<and> c_new_code_map c = [] \<and>
             send_feedback srv mc a s fb =
               (case failure st of
                  Some msg \<Rightarrow>
                    (consume fb (uuid_src s (Suc (uuid_calls s)))
                       (uuid_src s (Suc (Suc (uuid_calls s)))) (items st) c,
                     Some (GenerationError msg))
                | None \<Rightarrow>
                    commit srv (consume fb (uuid_src s (Suc (uuid_calls s)))
                       (uuid_src s (Suc (Suc (uuid_calls s)))) (items st) c))"
proof -
  let ?c0 = "yield_message UPDATE_IN_PROGRESS (JObj []) None (start a s)"
  let ?c = "?c0\<lparr>c_sys := s\<lparr>time_calls := Suc (time_calls s),
                               uuid_calls := Suc (Suc (Suc (uuid_calls s)))\<rparr>\<rparr>"
  have "send_feedback srv mc a s fb =
               (case failure st of
                  Some msg \<Rightarrow>
                    (consume fb (uuid_src s (Suc (uuid_calls s)))
                       (uuid_src s (Suc (Suc (uuid_calls s)))) (items st) ?c,
                     Some (GenerationError msg))
                | None \<Rightarrow>
                    commit srv (consume fb (uuid_src s (Suc (uuid_calls s)))
                       (uuid_src s (Suc (Suc (uuid_calls s)))) (items st) ?c))"
    using assms
    by (cases "failure st")
       (simp_all add: send_feedback_def Let_def first_yield first_yield_sys uuid4_str_def)
  moreover have "c_out ?c = [to_dict (fst (Message_new UPDATE_IN_PROGRESS (JObj []) None s))] \<and>
             c_agent ?c = a \<and> c_edits ?c = [] \<and> \<not> c_sent_plan ?c \<and> c_new_code_map ?c = []"
    by (simp add: first_yield)
  ultimately show ?thesis by blast
qed

lemma open_stream_sandbox_id:
  "open_stream srv mc a fb = Inr st \<Longrightarrow> \<exists>sid. map_of (init_data a) ''sandbox_id'' = Some sid"
  by (auto simp: open_stream_def dict_item_def split: option.splits sum.splits)

lemma open_stream_no_sandbox_id:
  "map_of (init_data a) ''sandbox_id'' = None \<Longrightarrow>
   open_stream srv mc a fb = Inl (KeyError ''sandbox_id'')"
  by (simp add: open_stream_def dict_item_def)

lemma open_stream_error:
  "map_of (init_data a) ''sandbox_id'' = Some sid \<Longrightarrow> open_stream srv mc a fb = Inl e \<Longrightarrow>
   \<exists>r. e = RemoteError r"
  by (auto simp: open_stream_def dict_item_def load_code_def remote_def Let_def
           split: option.splits sum.splits prod.splits)

lemma commit_run:
  assumes "map_of (init_data (c_agent c)) ''sandbox_id'' = Some sid"
  shows "c_edits (fst (commit srv c)) = c_edits c @ [(sid, c_new_code_map c)] \<and>
         c_agent (fst (commit srv c)) = c_agent c \<and>
         ((\<exists>r. snd (commit srv c) = Some (RemoteError r) \<and> c_out (fst (commit srv c)) = c_out c) \<or>
          (snd (commit srv c) = None \<and>
           (\<exists>m. msg_type m = UPDATE_COMPLETED \<and> c_out (fst (commit srv c)) = c_out c @ [to_dict m])))"
proof (cases "tool_edit_code srv sid (c_new_code_map c)")
  case (Inl r)
  then show ?thesis using assms
    by (simp add: commit_def dict_item_def edit_code_def remote_def Let_def)
next
  case (Inr v)
  then have "commit srv c =
     (yield_message UPDATE_COMPLETED (JObj []) None
        (c\<lparr>c_edits := c_edits c @ [(sid, c_new_code_map c)]\<rparr>), None)"
    using assms by (simp add: commit_def dict_item_def edit_code_def remote_def Let_def)
  then show ?thesis
    using Message_new_type [of UPDATE_COMPLETED "JObj []" None "c_sys c"]
    by (auto simp: yield_message_out yield_message_frame)
qed

section \<open>The claims\<close>

text \<open>
  Claim C3. In every run of \<open>send_feedback\<close>, \<open>edit_code\<close> (the one write to the
  remote workspace) is called exactly once when the stream was opened and ended without
  raising, whatever its items were; it is not called at all when the \<open>sandbox_id\<close>
  lookup or the load raised, nor when the stream raised.
\<close>

theorem edit_code_called_once_or_never:
  "(\<forall>st. open_stream srv mc a fb = Inr st \<and> failure st = None \<longrightarrow>
      (\<exists>sid cm. c_edits (fst (send_feedback srv mc a s fb)) = [(sid, cm)]))
   \<and> (\<forall>e. open_stream srv mc a fb = Inl e \<longrightarrow>
      c_edits (fst (send_feedback srv mc a s fb)) = [])
   \<and> (\<forall>st msg. open_stream srv mc a fb = Inr st \<and> failure st = Some msg \<longrightarrow>
      c_edits (fst (send_feedback srv mc a s fb)) = [])"
proof (intro conjI allI impI)
  fix st
  assume h: "open_stream srv mc a fb = Inr st \<and> failure st = None"
  from send_feedback_opened [of srv mc a fb st s] h obtain c where
    c: "c_agent c = a" "c_edits c = []"
       "send_feedback srv mc a s fb =
          commit srv (consume fb (uuid_src s (Suc (uuid_calls s)))
                        (uuid_src s (Suc (Suc (uuid_calls s)))) (items st) c)"
    by auto
  from open_stream_sandbox_id h obtain sid where
    sid: "map_of (init_data a) ''sandbox_id'' = Some sid" by blast
  let ?c1 = "consume fb (uuid_src s (Suc (uuid_calls s)))
               (uuid_src s (Suc (Suc (uuid_calls s)))) (items st) c"
  have "map_of (init_data (c_agent ?c1)) ''sandbox_id'' = Some sid"
    using sid c(1) by (simp add: consume_init_data)
  from commit_run [OF this, of srv]
  have "c_edits (fst (commit srv ?c1)) = [(sid, c_new_code_map ?c1)]"
    using c(2) by (simp add: consume_edits)
  then show "\<exists>sid cm. c_edits (fst (send_feedback srv mc a s fb)) = [(sid, cm)]"
    using c(3) by simp
next
  fix e
  assume "open_stream srv mc a fb = Inl e"
  then show "c_edits (fst (send_feedback srv mc a s fb)) = []"
    by (simp add: send_feedback_not_opened first_yield)
next
  fix st msg
  assume h: "open_stream srv mc a fb = Inr st \<and> failure st = Some msg"
  from send_feedback_opened [of srv mc a fb st s] h obtain c where
    c: "c_edits c = []"
       "send_feedback srv mc a s fb =
          (consume fb (uuid_src s (Suc (uuid_calls s)))
             (uuid_src s (Suc (Suc (uuid_calls s)))) (items st) c,
           Some (GenerationError msg))"
    by auto
  show "c_edits (fst (send_feedback srv mc a s fb)) = []"
    using c by (simp add: consume_edits)
qed

theorem edit_code_called_once_or_never_witness:
  "(open_stream ex_server ex_model_empty ex_agent ''hi'' = Inr \<lparr>items = [], failure = None\<rparr>
    \<and> length (c_edits (fst (send_feedback ex_server ex_model_empty ex_agent ex_sys ''hi''))) = 1)
   \<and> (open_stream ex_server ex_model ex_agent_stale ''hi'' = Inl (RemoteError (NotFoundError ''gone''))
    \<and> c_edits (fst (send_feedback ex_server ex_model ex_agent_stale ex_sys ''hi'')) = [])
   \<and> (open_stream ex_server ex_model_failing ex_agent ''hi''
         = Inr \<lparr>items = ex_items, failure = Some ''connection reset''\<rparr>
    \<and> c_edits (fst (send_feedback ex_server ex_model_failing ex_agent ex_sys ''hi'')) = [])"
proof -
  have a: "open_stream ex_server ex_model_empty ex_agent ''hi'' = Inr \<lparr>items = [], failure = None\<rparr>"
    by code_simp
  have b: "open_stream ex_server ex_model ex_agent_stale ''hi'' = Inl (RemoteError (NotFoundError ''gone''))"
    by code_simp
  have c: "open_stream ex_server ex_model_failing ex_agent ''hi''
         = Inr \<lparr>items = ex_items, failure = Some ''connection reset''\<rparr>"
    by code_simp
  show ?thesis
    using a b c
      edit_code_called_once_or_never [of ex_server ex_model_empty ex_agent "''hi''" ex_sys]
      edit_code_called_once_or_never [of ex_server ex_model ex_agent_stale "''hi''" ex_sys]
      edit_code_called_once_or_never [of ex_server ex_model_failing ex_agent "''hi''" ex_sys]
    by auto
qed

text \<open>
  Claim C1 (as the code has it). When the stream was opened and ended without raising,
  the one \<open>edit_code\<close> call goes to the sandbox of \<open>init_data\<close> and carries, for
  every path of the stream, the content of that path's first occurrence in the stream
  (\<open>map_of\<close> takes the first entry of a key): a later item with the same path changes
  nothing.
\<close>

theorem commit_holds_first_content:
  assumes "open_stream srv mc a fb = Inr st" and "failure st = None"
  shows "\<exists>sid cm. c_edits (fst (send_feedback srv mc a s fb)) = [(sid, cm)]
           \<and> map_of (init_data a) ''sandbox_id'' = Some sid
           \<and> map_of cm = map_of (stream_files (items st))"
proof -
  from send_feedback_opened [OF assms(1), of s] assms(2) obtain c where
    c: "c_agent c = a" "c_edits c = []" "c_new_code_map c = []"
       "send_feedback srv mc a s fb =
          commit srv (consume fb (uuid_src s (Suc (uuid_calls s)))
                        (uuid_src s (Suc (Suc (uuid_calls s)))) (items st) c)"
    by auto
  from open_stream_sandbox_id [OF assms(1)] obtain sid where
    sid: "map_of (init_data a) ''sandbox_id'' = Some sid" by blast
  let ?c1 = "consume fb (uuid_src s (Suc (uuid_calls s)))
               (uuid_src s (Suc (Suc (uuid_calls s)))) (items st) c"
  have "map_of (init_data (c_agent ?c1)) ''sandbox_id'' = Some sid"
    using sid c(1) by (simp add: consume_init_data)
  from commit_run [OF this, of srv]
  have "c_edits (fst (commit srv ?c1)) = [(sid, c_new_code_map ?c1)]"
    using c(2) by (simp add: consume_edits)
  moreover have "map_of (c_new_code_map ?c1) = map_of (stream_files (items st))"
    using consume_map [of fb _ _ "items st" c] c(3) by simp
  ultimately show ?thesis using c(4) sid by simp
qed

theorem commit_holds_first_content_witness:
  "open_stream ex_server ex_model ex_agent ''hi'' = Inr \<lparr>items = ex_items, failure = None\<rparr>
   \<and> (\<exists>sid cm. c_edits (fst (send_feedback ex_server ex_model ex_agent ex_sys ''hi'')) = [(sid, cm)]
           \<and> map_of (init_data ex_agent) ''sandbox_id'' = Some sid
           \<and> map_of cm = map_of (stream_files ex_items))"
proof -
  have h: "open_stream ex_server ex_model ex_agent ''hi'' = Inr \<lparr>items = ex_items, failure = None\<rparr>"
    by code_simp
  show ?thesis
    using h commit_holds_first_content [OF h, of ex_sys] by simp
qed

text \<open>
  Claim C1 as stated fails: the stream below has \<open>src/App.tsx\<close> in two items, with
  content \<open>v1\<close> and then \<open>v2\<close>; the run ends normally and commits \<open>v1\<close>.
\<close>

theorem commit_latest_content_counterexample:
  "stream_files ex_items = [(''src/App.tsx'', ''v1''), (''src/App.tsx'', ''v2'')]
   \<and> snd (send_feedback ex_server ex_model ex_agent ex_sys ''hi'') = None
   \<and> c_edits (fst (send_feedback ex_server ex_model ex_agent ex_sys ''hi''))
       = [(''sb1'', [(''src/App.tsx'', ''v1'')])]"
  by code_simp

text \<open>
  Claim C2. For every stream consumed in a run, the run yields at most one
  \<open>agent_final\<close> envelope, and yields one exactly when some item of the stream has
  \<open>plan.state == "Complete"\<close>.
\<close>

theorem one_agent_final_iff_complete:
  assumes "open_stream srv mc a fb = Inr st"
  shows "count_type AGENT_FINAL (c_out (fst (send_feedback srv mc a s fb)))
         = (if \<exists>p\<in>set (items st). is_complete p then 1 else 0)"
proof -
  from send_feedback_opened [OF assms, of s] obtain c where
    c: "c_out c = [to_dict (fst (Message_new UPDATE_IN_PROGRESS (JObj []) None s))]"
       "c_agent c = a" "\<not> c_sent_plan c"
       "send_feedback srv mc a s fb =
               (case failure st of
                  Some msg \<Rightarrow>
                    (consume fb (uuid_src s (Suc (uuid_calls s)))
                       (uuid_src s (Suc (Suc (uuid_calls s)))) (items st) c,
                     Some (GenerationError msg))
                | None \<Rightarrow>
                    commit srv (consume fb (uuid_src s (Suc (uuid_calls s)))
                       (uuid_src s (Suc (Suc (uuid_calls s)))) (items st) c))"
    by blast
  let ?c1 = "consume fb (uuid_src s (Suc (uuid_calls s)))
               (uuid_src s (Suc (Suc (uuid_calls s)))) (items st) c"
  have c0: "count_type AGENT_FINAL (c_out c) = 0"
    by (simp add: c(1) count_type_def is_type_to_dict Message_new_type)
  have loop: "count_type AGENT_FINAL (c_out ?c1)
              = (if \<exists>p\<in>set (items st). is_complete p then 1 else 0)"
    using c(3) c0 by (simp add: consume_count_final)
  show ?thesis
  proof (cases "failure st")
    case (Some msg)
    then show ?thesis using c(4) loop by simp
  next
    case None
    from open_stream_sandbox_id [OF assms] obtain sid where
      "map_of (init_data a) ''sandbox_id'' = Some sid" by blast
    then have "map_of (init_data (c_agent ?c1)) ''sandbox_id'' = Some sid"
      using c(2) by (simp add: consume_init_data)
    from commit_run [OF this, of srv]
    have "count_type AGENT_FINAL (c_out (fst (commit srv ?c1)))
          = count_type AGENT_FINAL (c_out ?c1)"
      by (auto simp: count_type_def is_type_to_dict)
    then show ?thesis using None c(4) loop by simp
  qed
qed

theorem one_agent_final_iff_complete_witness:
  "open_stream ex_server ex_model ex_agent ''hi'' = Inr \<lparr>items = ex_items, failure = None\<rparr>
   \<and> (\<exists>p\<in>set ex_items. is_complete p)
   \<and> count_type AGENT_FINAL (c_out (fst (send_feedback ex_server ex_model ex_agent ex_sys ''hi''))) = 1"
proof -
  have h: "open_stream ex_server ex_model ex_agent ''hi'' = Inr \<lparr>items = ex_items, failure = None\<rparr>"
    by code_simp
  have e: "\<exists>p\<in>set ex_items. is_complete p"
    by (simp add: ex_items_def ex_first_def ex_second_def is_complete_def)
  show ?thesis
    using h e one_agent_final_iff_complete [OF h, of ex_sys] by simp
qed

text \<open>
  Claim C4. In every run that opens its stream, the number of \<open>update_file\<close>
  envelopes yielded is the number of distinct paths in the \<open>files\<close> lists of the
  stream's items; a path that occurs several times is announced once.
\<close>

theorem update_file_per_distinct_path:
  assumes "open_stream srv mc a fb = Inr st"
  shows "count_type UPDATE_FILE (c_out (fst (send_feedback srv mc a s fb)))
         = card (fst ` set (stream_files (items st)))"
proof -
  from send_feedback_opened [OF assms, of s] obtain c where
    c: "c_out c = [to_dict (fst (Message_new UPDATE_IN_PROGRESS (JObj []) None s))]"
       "c_agent c = a" "c_new_code_map c = []"
       "send_feedback srv mc a s fb =
               (case failure st of
                  Some msg \<Rightarrow>
                    (consume fb (uuid_src s (Suc (uuid_calls s)))
                       (uuid_src s (Suc (Suc (uuid_calls s)))) (items st) c,
                     Some (GenerationError msg))
                | None \<Rightarrow>
                    commit srv (consume fb (uuid_src s (Suc (uuid_calls s)))
                       (uuid_src s (Suc (Suc (uuid_calls s)))) (items st) c))"
    by blast
  let ?c1 = "consume fb (uuid_src s (Suc (uuid_calls s)))
               (uuid_src s (Suc (Suc (uuid_calls s)))) (items st) c"
  have c0: "count_type UPDATE_FILE (c_out c) = 0"
    by (simp add: c(1) count_type_def is_type_to_dict Message_new_type)
  have "count_type UPDATE_FILE (c_out ?c1) = length (c_new_code_map ?c1)"
    using consume_count_file [of fb _ _ "items st" c] c0 c(3) by simp
  then have loop: "count_type UPDATE_FILE (c_out ?c1) = card (fst ` set (stream_files (items st)))"
    using consume_length_map [OF c(3)] by simp
  show ?thesis
  proof (cases "failure st")
    case (Some msg)
    then show ?thesis using c(4) loop by simp
  next
    case None
    from open_stream_sandbox_id [OF assms] obtain sid where
      "map_of (init_data a) ''sandbox_id'' = Some sid" by blast
    then have "map_of (init_data (c_agent ?c1)) ''sandbox_id'' = Some sid"
      using c(2) by (simp add: consume_init_data)
    from commit_run [OF this, of srv]
    have "count_type UPDATE_FILE (c_out (fst (commit srv ?c1)))
          = count_type UPDATE_FILE (c_out ?c1)"
      by (auto simp: count_type_def is_type_to_dict)
    then show ?thesis using None c(4) loop by simp
  qed
qed

theorem update_file_per_distinct_path_witness:
  "open_stream ex_server ex_model ex_agent ''hi'' = Inr \<lparr>items = ex_items, failure = None\<rparr>
   \<and> fst ` set (stream_files ex_items) = {''src/App.tsx''}
   \<and> count_type UPDATE_FILE (c_out (fst (send_feedback ex_server ex_model ex_agent ex_sys ''hi''))) = 1"
proof -
  have h: "open_stream ex_server ex_model ex_agent ''hi'' = Inr \<lparr>items = ex_items, failure = None\<rparr>"
    by code_simp
  have e: "fst ` set (stream_files ex_items) = {''src/App.tsx''}"
    by (simp add: ex_items_def ex_first_def ex_second_def stream_files_def)
  show ?thesis
    using h e update_file_per_distinct_path [OF h, of ex_sys] by simp
qed

lemma send_feedback_out:
  "\<exists>ys. (c_out (fst (send_feedback srv mc a s fb))
           = to_dict (fst (Message_new UPDATE_IN_PROGRESS (JObj []) None s)) # ys
         \<or> (\<exists>m. msg_type m = UPDATE_COMPLETED \<and>
              c_out (fst (send_feedback srv mc a s fb))
                = to_dict (fst (Message_new UPDATE_IN_PROGRESS (JObj []) None s)) # ys @ [to_dict m]))
     \<and> (\<forall>y\<in>set ys. \<exists>m. y = to_dict m \<and>
          ((msg_type m = AGENT_PARTIAL \<or> msg_type m = AGENT_FINAL)
             \<and> (uuid_src s (Suc (uuid_calls s)) \<noteq> [] \<longrightarrow> msg_id m = uuid_src s (Suc (uuid_calls s)))
           \<or> msg_type m = UPDATE_FILE
             \<and> (uuid_src s (Suc (Suc (uuid_calls s))) \<noteq> []
                  \<longrightarrow> msg_id m = uuid_src s (Suc (Suc (uuid_calls s))))))"
proof (cases "open_stream srv mc a fb")
  case (Inl e)
  then have "c_out (fst (send_feedback srv mc a s fb))
           = to_dict (fst (Message_new UPDATE_IN_PROGRESS (JObj []) None s)) # []"
    by (simp add: send_feedback_not_opened first_yield)
  then show ?thesis by (intro exI [of _ "[]"]) simp
next
  case (Inr st)
  let ?P = "uuid_src s (Suc (uuid_calls s))"
  let ?F = "uuid_src s (Suc (Suc (uuid_calls s)))"
  let ?m0 = "fst (Message_new UPDATE_IN_PROGRESS (JObj []) None s)"
  from send_feedback_opened [OF Inr, of s] obtain c where
    c: "c_out c = [to_dict ?m0]" "c_agent c = a"
       "send_feedback srv mc a s fb =
               (case failure st of
                  Some msg \<Rightarrow> (consume fb ?P ?F (items st) c, Some (GenerationError msg))
                | None \<Rightarrow> commit srv (consume fb ?P ?F (items st) c))"
    by blast
  let ?c1 = "consume fb ?P ?F (items st) c"
  from consume_out [of fb ?P ?F "items st" c] obtain ys where
    ys: "c_out ?c1 = c_out c @ ys"
        "\<forall>y\<in>set ys. \<exists>m. y = to_dict m \<and>
          ((msg_type m = AGENT_PARTIAL \<or> msg_type m = AGENT_FINAL) \<and> (?P \<noteq> [] \<longrightarrow> msg_id m = ?P)
           \<or> msg_type m = UPDATE_FILE \<and> (?F \<noteq> [] \<longrightarrow> msg_id m = ?F))"
    by blast
  have out1: "c_out ?c1 = to_dict ?m0 # ys"
    using ys(1) c(1) by simp
  have "c_out (fst (send_feedback srv mc a s fb)) = to_dict ?m0 # ys
         \<or> (\<exists>m. msg_type m = UPDATE_COMPLETED \<and>
              c_out (fst (send_feedback srv mc a s fb)) = to_dict ?m0 # ys @ [to_dict m])"
  proof (cases "failure st")
    case (Some msg)
    then show ?thesis using c(3) out1 by simp
  next
    case None
    from open_stream_sandbox_id [OF Inr] obtain sid where
      "map_of (init_data a) ''sandbox_id'' = Some sid" by blast
    then have "map_of (init_data (c_agent ?c1)) ''sandbox_id'' = Some sid"
      using c(2) by (simp add: consume_init_data)
    from commit_run [OF this, of srv]
    have "c_out (fst (commit srv ?c1)) = c_out ?c1
          \<or> (\<exists>m. msg_type m = UPDATE_COMPLETED \<and>
                c_out (fst (commit srv ?c1)) = c_out ?c1 @ [to_dict m])"
      by blast
    then show ?thesis using None c(3) out1 by simp
  qed
  then show ?thesis using ys(2) by blast
qed

text \<open>
  Claim C7. In every run, the first envelope yielded is \<open>update_in_progress\<close>, and an
  \<open>update_completed\<close> envelope, when one is yielded, is the last one.
\<close>

theorem in_progress_first_completed_last:
  "c_out (fst (send_feedback srv mc a s fb)) \<noteq> []
   \<and> is_type UPDATE_IN_PROGRESS (hd (c_out (fst (send_feedback srv mc a s fb))))
   \<and> (\<forall>i < length (c_out (fst (send_feedback srv mc a s fb))).
        is_type UPDATE_COMPLETED (c_out (fst (send_feedback srv mc a s fb)) ! i)
        \<longrightarrow> Suc i = length (c_out (fst (send_feedback srv mc a s fb))))"
proof -
  let ?out = "c_out (fst (send_feedback srv mc a s fb))"
  let ?m0 = "fst (Message_new UPDATE_IN_PROGRESS (JObj []) None s)"
  from send_feedback_out [of srv mc a s fb] obtain ys where
    shape: "?out = to_dict ?m0 # ys
            \<or> (\<exists>m. msg_type m = UPDATE_COMPLETED \<and> ?out = to_dict ?m0 # ys @ [to_dict m])"
    and ys: "\<forall>y\<in>set ys. \<exists>m. y = to_dict m \<and>
               (msg_type m = AGENT_PARTIAL \<or> msg_type m = AGENT_FINAL \<or> msg_type m = UPDATE_FILE)"
    by blast
  have inner: "\<not> is_type UPDATE_COMPLETED y" if "y \<in> set (to_dict ?m0 # ys)" for y
    using that ys by (auto simp: is_type_to_dict Message_new_type)
  have first: "?out \<noteq> [] \<and> is_type UPDATE_IN_PROGRESS (hd ?out)"
    using shape by (auto simp: is_type_to_dict Message_new_type)
  have last: "Suc i = length ?out" if i: "i < length ?out" and t: "is_type UPDATE_COMPLETED (?out ! i)" for i
  proof (rule ccontr)
    assume n: "Suc i \<noteq> length ?out"
    from shape show False
    proof
      assume eq: "?out = to_dict ?m0 # ys"
      then have "?out ! i \<in> set (to_dict ?m0 # ys)" using i by (metis nth_mem)
      then show False using inner t by blast
    next
      assume "\<exists>m. msg_type m = UPDATE_COMPLETED \<and> ?out = to_dict ?m0 # ys @ [to_dict m]"
      then obtain m where eq: "?out = (to_dict ?m0 # ys) @ [to_dict m]" by auto
      have "i < length (to_dict ?m0 # ys)" using i n unfolding eq by simp
      then have "?out ! i = (to_dict ?m0 # ys) ! i \<and> (to_dict ?m0 # ys) ! i \<in> set (to_dict ?m0 # ys)"
        unfolding eq by (metis nth_append nth_mem)
      then show False using inner t by metis
    qed
  qed
  show ?thesis using first last by blast
qed

theorem in_progress_first_completed_last_witness:
  "c_out (fst (send_feedback ex_server ex_model ex_agent ex_sys ''hi'')) \<noteq> []
   \<and> is_type UPDATE_IN_PROGRESS (hd (c_out (fst (send_feedback ex_server ex_model ex_agent ex_sys ''hi''))))
   \<and> length (c_out (fst (send_feedback ex_server ex_model ex_agent ex_sys ''hi''))) = 5
   \<and> is_type UPDATE_COMPLETED (c_out (fst (send_feedback ex_server ex_model ex_agent ex_sys ''hi'')) ! 4)
   \<and> \<not> is_type UPDATE_COMPLETED (c_out (fst (send_feedback ex_server ex_model ex_agent ex_sys ''hi'')) ! 0)
   \<and> \<not> is_type UPDATE_COMPLETED (c_out (fst (send_feedback ex_server ex_model ex_agent ex_sys ''hi'')) ! 1)
   \<and> \<not> is_type UPDATE_COMPLETED (c_out (fst (send_feedback ex_server ex_model ex_agent ex_sys ''hi'')) ! 2)
   \<and> \<not> is_type UPDATE_COMPLETED (c_out (fst (send_feedback ex_server ex_model ex_agent ex_sys ''hi'')) ! 3)"
proof -
  let ?out = "c_out (fst (send_feedback ex_server ex_model ex_agent ex_sys ''hi''))"
  have len: "length ?out = 5"
    by code_simp
  have lastc: "is_type UPDATE_COMPLETED (?out ! 4)"
    by code_simp
  note inst = in_progress_first_completed_last [of ex_server ex_model ex_agent ex_sys "''hi''"]
  have only: "i = 4" if "i < 5" and "is_type UPDATE_COMPLETED (?out ! i)" for i
    using inst that len by auto
  have "\<not> is_type UPDATE_COMPLETED (?out ! 0)" "\<not> is_type UPDATE_COMPLETED (?out ! 1)"
       "\<not> is_type UPDATE_COMPLETED (?out ! 2)" "\<not> is_type UPDATE_COMPLETED (?out ! 3)"
    using only [of 0] only [of 1] only [of 2] only [of 3] by auto
  then show ?thesis
    using len lastc inst by blast
qed

text \<open>
  Claim C8. Within one run, every \<open>agent_partial\<close> envelope and the \<open>agent_final\<close>
  envelope carry the id allocated by the second \<open>uuid4\<close> call of the run (the first
  one after the id of \<open>update_in_progress\<close>), and every \<open>update_file\<close> envelope
  carries the id allocated by the third. The strings that \<open>uuid4\<close> gives are not empty.
\<close>

theorem stable_ids_within_cycle:
  assumes "\<And>n. uuid_src s n \<noteq> []"
  shows "\<forall>e\<in>set (c_out (fst (send_feedback srv mc a s fb))).
           ((is_type AGENT_PARTIAL e \<or> is_type AGENT_FINAL e)
              \<longrightarrow> env_id e = Some (uuid_src s (Suc (uuid_calls s))))
           \<and> (is_type UPDATE_FILE e
              \<longrightarrow> env_id e = Some (uuid_src s (Suc (Suc (uuid_calls s)))))"
proof
  fix e
  let ?out = "c_out (fst (send_feedback srv mc a s fb))"
  let ?m0 = "fst (Message_new UPDATE_IN_PROGRESS (JObj []) None s)"
  let ?P = "uuid_src s (Suc (uuid_calls s))"
  let ?F = "uuid_src s (Suc (Suc (uuid_calls s)))"
  assume e: "e \<in> set ?out"
  from send_feedback_out [of srv mc a s fb] assms obtain ys where
    shape: "?out = to_dict ?m0 # ys
            \<or> (\<exists>m. msg_type m = UPDATE_COMPLETED \<and> ?out = to_dict ?m0 # ys @ [to_dict m])"
    and ys: "\<forall>y\<in>set ys. \<exists>m. y = to_dict m \<and>
          ((msg_type m = AGENT_PARTIAL \<or> msg_type m = AGENT_FINAL) \<and> msg_id m = ?P
           \<or> msg_type m = UPDATE_FILE \<and> msg_id m = ?F)"
    by auto
  from shape e have "e = to_dict ?m0 \<or> e \<in> set ys \<or> (\<exists>m. msg_type m = UPDATE_COMPLETED \<and> e = to_dict m)"
    by auto
  then show "((is_type AGENT_PARTIAL e \<or> is_type AGENT_FINAL e) \<longrightarrow> env_id e = Some ?P)
           \<and> (is_type UPDATE_FILE e \<longrightarrow> env_id e = Some ?F)"
    using ys by (auto simp: is_type_to_dict env_id_to_dict Message_new_type)
qed

theorem stable_ids_within_cycle_witness:
  "(\<forall>n. uuid_src ex_sys n \<noteq> [])
   \<and> map env_type (c_out (fst (send_feedback ex_server ex_model ex_agent ex_sys ''hi'')))
       = [Some ''update_in_progress'', Some ''agent_partial'', Some ''update_file'',
          Some ''agent_final'', Some ''update_completed'']
   \<and> env_id (c_out (fst (send_feedback ex_server ex_model ex_agent ex_sys ''hi'')) ! 1) = Some ''uuid-x''
   \<and> env_id (c_out (fst (send_feedback ex_server ex_model ex_agent ex_sys ''hi'')) ! 3) = Some ''uuid-x''
   \<and> env_id (c_out (fst (send_feedback ex_server ex_model ex_agent ex_sys ''hi'')) ! 2) = Some ''uuid-xx''"
proof -
  let ?out = "c_out (fst (send_feedback ex_server ex_model ex_agent ex_sys ''hi''))"
  have h: "\<And>n. uuid_src ex_sys n \<noteq> []"
    by (simp add: ex_sys_def)
  have p: "uuid_src ex_sys (Suc (uuid_calls ex_sys)) = ''uuid-x''"
          "uuid_src ex_sys (Suc (Suc (uuid_calls ex_sys))) = ''uuid-xx''"
    by (simp_all add: ex_sys_def)
  have types: "map env_type ?out
       = [Some ''update_in_progress'', Some ''agent_partial'', Some ''update_file'',
          Some ''agent_final'', Some ''update_completed'']"
    by code_simp
  have t: "is_type AGENT_PARTIAL (?out ! 1)" "is_type UPDATE_FILE (?out ! 2)"
          "is_type AGENT_FINAL (?out ! 3)"
    by code_simp+
  have len: "length ?out = 5"
    by code_simp
  have mem: "?out ! 1 \<in> set ?out" "?out ! 2 \<in> set ?out" "?out ! 3 \<in> set ?out"
    using len by simp_all
  note inst = stable_ids_within_cycle [OF h, of ex_server ex_model ex_agent "''hi''", unfolded p]
  have "env_id (?out ! 1) = Some ''uuid-x''" "env_id (?out ! 3) = Some ''uuid-x''"
       "env_id (?out ! 2) = Some ''uuid-xx''"
    using inst mem t by blast+
  then show ?thesis using h types by blast
qed

text \<open>
  Claim C9. A run changes the history at one point only: at the first stream item
  whose \<open>plan.state\<close> is \<open>"Complete"\<close>, where it appends a user turn holding the
  feedback and then an assistant turn holding that item's plan text. After any item that
  is not the first complete one the history is what it was before the item, and the steps
  before and after the loop leave it alone: the history at the end of the run is the
  initial one when no item is complete (or the stream was never opened), and the initial
  one followed by that pair otherwise.
\<close>

theorem history_changes_at_first_complete_only:
  "history (c_agent (fst (send_feedback srv mc a s fb)))
     = (case open_stream srv mc a fb of
          Inl e \<Rightarrow> history a
        | Inr st \<Rightarrow>
            (case find is_complete (items st) of
               None \<Rightarrow> history a
             | Some p \<Rightarrow> history a @ turn_pair fb (plan_value (p_plan p))))
   \<and> (\<not> c_sent_plan c \<longrightarrow>
        history (c_agent (consume fb pid fid (pre @ [p]) c))
          = (if is_complete p \<and> \<not> (\<exists>q\<in>set pre. is_complete q)
             then history (c_agent (consume fb pid fid pre c)) @ turn_pair fb (plan_value (p_plan p))
             else history (c_agent (consume fb pid fid pre c))))"
proof
  show "history (c_agent (fst (send_feedback srv mc a s fb)))
     = (case open_stream srv mc a fb of
          Inl e \<Rightarrow> history a
        | Inr st \<Rightarrow>
            (case find is_complete (items st) of
               None \<Rightarrow> history a
             | Some p \<Rightarrow> history a @ turn_pair fb (plan_value (p_plan p))))"
  proof (cases "open_stream srv mc a fb")
    case (Inl e)
    then show ?thesis by (simp add: send_feedback_not_opened first_yield)
  next
    case (Inr st)
    let ?P = "uuid_src s (Suc (uuid_calls s))"
    let ?F = "uuid_src s (Suc (Suc (uuid_calls s)))"
    from send_feedback_opened [OF Inr, of s] obtain c0 where
      c: "c_agent c0 = a" "\<not> c_sent_plan c0"
         "send_feedback srv mc a s fb =
               (case failure st of
                  Some msg \<Rightarrow> (consume fb ?P ?F (items st) c0, Some (GenerationError msg))
                | None \<Rightarrow> commit srv (consume fb ?P ?F (items st) c0))"
      by blast
    let ?c1 = "consume fb ?P ?F (items st) c0"
    have loop: "history (c_agent ?c1)
                = (case find is_complete (items st) of
                     None \<Rightarrow> history a
                   | Some p \<Rightarrow> history a @ turn_pair fb (plan_value (p_plan p)))"
      using c(1,2) by (simp add: consume_history split: option.splits)
    have "history (c_agent (fst (send_feedback srv mc a s fb))) = history (c_agent ?c1)"
    proof (cases "failure st")
      case (Some msg)
      then show ?thesis using c(3) by simp
    next
      case None
      from open_stream_sandbox_id [OF Inr] obtain sid where
        "map_of (init_data a) ''sandbox_id'' = Some sid" by blast
      then have "map_of (init_data (c_agent ?c1)) ''sandbox_id'' = Some sid"
        using c(1) by (simp add: consume_init_data)
      from commit_run [OF this, of srv]
      have "c_agent (fst (commit srv ?c1)) = c_agent ?c1" by blast
      then show ?thesis using None c(3) by simp
    qed
    then show ?thesis using loop Inr by simp
  qed
next
  show "\<not> c_sent_plan c \<longrightarrow>
        history (c_agent (consume fb pid fid (pre @ [p]) c))
          = (if is_complete p \<and> \<not> (\<exists>q\<in>set pre. is_complete q)
             then history (c_agent (consume fb pid fid pre c)) @ turn_pair fb (plan_value (p_plan p))
             else history (c_agent (consume fb pid fid pre c)))"
    by (simp add: consume_snoc process_partial_history consume_sent_plan)
qed

theorem history_changes_at_first_complete_only_witness:
  "history (c_agent (fst (send_feedback ex_server ex_model ex_agent ex_sys ''hi'')))
     = [\<lparr>role = ''user'', content = ''hi''\<rparr>, \<lparr>role = ''assistant'', content = ''Edit App''\<rparr>]
   \<and> history (c_agent (consume ''hi'' ''p'' ''f'' ([] @ [ex_first]) (start ex_agent ex_sys))) = []
   \<and> history (c_agent (consume ''hi'' ''p'' ''f'' ([ex_first] @ [ex_second]) (start ex_agent ex_sys)))
     = [\<lparr>role = ''user'', content = ''hi''\<rparr>, \<lparr>role = ''assistant'', content = ''Edit App''\<rparr>]"
proof -
  have o: "open_stream ex_server ex_model ex_agent ''hi'' = Inr \<lparr>items = ex_items, failure = None\<rparr>"
    by code_simp
  have f: "find is_complete ex_items = Some (ex_second)"
    by (simp add: ex_items_def ex_first_def ex_second_def is_complete_def)
  have v: "plan_value (p_plan (ex_second)) = ''Edit App''" "history ex_agent = []"
          "\<not> is_complete (ex_first)" "is_complete (ex_second)"
          "\<not> c_sent_plan (start ex_agent ex_sys)" "c_agent (start ex_agent ex_sys) = ex_agent"
    by (simp_all add: ex_first_def ex_second_def ex_agent_def is_complete_def start_def)
  show ?thesis
    using history_changes_at_first_complete_only
            [of ex_server ex_model ex_agent ex_sys "''hi''" "start ex_agent ex_sys"
                "''p''" "''f''" "[]" "ex_first"]
          history_changes_at_first_complete_only
            [of ex_server ex_model ex_agent ex_sys "''hi''" "start ex_agent ex_sys"
                "''p''" "''f''" "[ex_first]" "ex_second"]
    by (simp add: o f v turn_pair_def)
qed

text \<open>
  Claim C10. On an agent whose \<open>init_data\<close> has no \<open>sandbox_id\<close> key, a run yields the
  \<open>update_in_progress\<close> envelope and then raises \<open>KeyError\<close> for that key, with
  nothing else yielded and no \<open>edit_code\<close> call. When the key is present, no lookup of
  the run raises: the run never ends in a \<open>KeyError\<close>.
\<close>

theorem sandbox_id_lookup:
  "(map_of (init_data a) ''sandbox_id'' = None \<longrightarrow>
      c_out (fst (send_feedback srv mc a s fb))
        = [to_dict (fst (Message_new UPDATE_IN_PROGRESS (JObj []) None s))]
      \<and> snd (send_feedback srv mc a s fb) = Some (KeyError ''sandbox_id'')
      \<and> c_edits (fst (send_feedback srv mc a s fb)) = [])
   \<and> (\<forall>sid k. map_of (init_data a) ''sandbox_id'' = Some sid \<longrightarrow>
        snd (send_feedback srv mc a s fb) \<noteq> Some (KeyError k))"
proof (intro conjI allI impI)
  assume "map_of (init_data a) ''sandbox_id'' = None"
  then have r: "send_feedback srv mc a s fb
     = (yield_message UPDATE_IN_PROGRESS (JObj []) None (start a s), Some (KeyError ''sandbox_id''))"
    by (simp add: open_stream_no_sandbox_id send_feedback_not_opened)
  show "c_out (fst (send_feedback srv mc a s fb))
        = [to_dict (fst (Message_new UPDATE_IN_PROGRESS (JObj []) None s))]"
    and "snd (send_feedback srv mc a s fb) = Some (KeyError ''sandbox_id'')"
    and "c_edits (fst (send_feedback srv mc a s fb)) = []"
    by (simp_all add: r first_yield)
next
  fix sid k
  assume sid: "map_of (init_data a) ''sandbox_id'' = Some sid"
  show "snd (send_feedback srv mc a s fb) \<noteq> Some (KeyError k)"
  proof (cases "open_stream srv mc a fb")
    case (Inl e)
    from open_stream_error [OF sid Inl] obtain r where "e = RemoteError r" by blast
    then show ?thesis using Inl by (simp add: send_feedback_not_opened)
  next
    case (Inr st)
    let ?P = "uuid_src s (Suc (uuid_calls s))"
    let ?F = "uuid_src s (Suc (Suc (uuid_calls s)))"
    from send_feedback_opened [OF Inr, of s] obtain c0 where
      c: "c_agent c0 = a"
         "send_feedback srv mc a s fb =
               (case failure st of
                  Some msg \<Rightarrow> (consume fb ?P ?F (items st) c0, Some (GenerationError msg))
                | None \<Rightarrow> commit srv (consume fb ?P ?F (items st) c0))"
      by blast
    let ?c1 = "consume fb ?P ?F (items st) c0"
    show ?thesis
    proof (cases "failure st")
      case (Some msg)
      then show ?thesis using c(2) by simp
    next
      case None
      have "map_of (init_data (c_agent ?c1)) ''sandbox_id'' = Some sid"
        using sid c(1) by (simp add: consume_init_data)
      from commit_run [OF this, of srv]
      have "snd (commit srv ?c1) \<noteq> Some (KeyError k)" by auto
      then show ?thesis using None c(2) by simp
    qed
  qed
qed

theorem sandbox_id_lookup_witness:
  "(map_of (init_data Agent_init) ''sandbox_id'' = None
    \<and> map (env_type) (c_out (fst (send_feedback ex_server ex_model Agent_init ex_sys ''hi'')))
        = [Some ''update_in_progress'']
    \<and> snd (send_feedback ex_server ex_model Agent_init ex_sys ''hi'') = Some (KeyError ''sandbox_id'')
    \<and> c_edits (fst (send_feedback ex_server ex_model Agent_init ex_sys ''hi'')) = [])
   \<and> (map_of (init_data ex_agent) ''sandbox_id'' = Some ''sb1''
    \<and> snd (send_feedback ex_server ex_model ex_agent ex_sys ''hi'') \<noteq> Some (KeyError ''sandbox_id''))"
proof -
  have n: "map_of (init_data Agent_init) ''sandbox_id'' = None"
    by (simp add: Agent_init_def)
  have p: "map_of (init_data ex_agent) ''sandbox_id'' = Some ''sb1''"
    by (simp add: ex_agent_def)
  show ?thesis
    using n p sandbox_id_lookup [of Agent_init ex_server ex_model ex_sys "''hi''"]
          sandbox_id_lookup [of ex_agent ex_server ex_model ex_sys "''hi''"]
    by (simp add: env_type_to_dict Message_new_type)
qed

text \<open>
  Claim C6 (as the code has it). \<open>Message.new\<close> always returns an envelope, with the
  given type and data. A supplied id that is not the empty string becomes the envelope's
  id and no \<open>uuid4\<close> call is made. With no id, or with the empty string as id
  (\<open>id or ...\<close>), the id is the result of one new \<open>uuid4\<close> call, so two envelopes
  made in a row without an id differ in their ids whenever \<open>uuid4\<close> does not repeat
  itself.
\<close>

theorem Message_new_id:
  "(\<forall>x. i = Some x \<and> x \<noteq> [] \<longrightarrow>
      msg_id (fst (Message_new t d i s)) = x
      \<and> uuid_calls (snd (Message_new t d i s)) = uuid_calls s)
   \<and> (i = None \<or> i = Some [] \<longrightarrow>
      msg_id (fst (Message_new t d i s)) = uuid_src s (uuid_calls s)
      \<and> uuid_calls (snd (Message_new t d i s)) = Suc (uuid_calls s)
      \<and> (inj (uuid_src s) \<longrightarrow>
           msg_id (fst (Message_new t' d' None (snd (Message_new t d i s))))
             \<noteq> msg_id (fst (Message_new t d i s))))
   \<and> msg_type (fst (Message_new t d i s)) = t
   \<and> msg_data (fst (Message_new t d i s)) = d
   \<and> msg_timestamp (fst (Message_new t d i s)) = time_src s (time_calls s) div 1000000"
  by (auto simp: Message_new_def uuid4_str_def time_ns_def split: option.splits dest: injD)

theorem Message_new_id_witness:
  "msg_id (fst (Message_new AGENT_PARTIAL (JObj []) (Some ''abc'') ex_sys)) = ''abc''
   \<and> uuid_calls (snd (Message_new AGENT_PARTIAL (JObj []) (Some ''abc'') ex_sys)) = 0
   \<and> msg_id (fst (Message_new AGENT_PARTIAL (JObj []) None ex_sys)) = ''uuid-''
   \<and> uuid_calls (snd (Message_new AGENT_PARTIAL (JObj []) None ex_sys)) = 1
   \<and> inj (uuid_src ex_sys)
   \<and> msg_id (fst (Message_new USER (JObj []) None (snd (Message_new AGENT_PARTIAL (JObj []) None ex_sys))))
       \<noteq> msg_id (fst (Message_new AGENT_PARTIAL (JObj []) None ex_sys))"
proof -
  have i: "inj (uuid_src ex_sys)"
    by (auto simp: ex_sys_def inj_def dest: arg_cong [where f = length])
  have u: "uuid_src ex_sys (uuid_calls ex_sys) = ''uuid-''" "uuid_calls ex_sys = 0"
    by (simp_all add: ex_sys_def)
  have a: "msg_id (fst (Message_new AGENT_PARTIAL (JObj []) (Some ''abc'') ex_sys)) = ''abc''
           \<and> uuid_calls (snd (Message_new AGENT_PARTIAL (JObj []) (Some ''abc'') ex_sys)) = 0"
    using u Message_new_id [of "Some ''abc''" AGENT_PARTIAL "JObj []" ex_sys USER "JObj []"]
    by simp
  have b: "msg_id (fst (Message_new AGENT_PARTIAL (JObj []) None ex_sys)) = ''uuid-''
           \<and> uuid_calls (snd (Message_new AGENT_PARTIAL (JObj []) None ex_sys)) = 1"
    using u Message_new_id [of None AGENT_PARTIAL "JObj []" ex_sys USER "JObj []"]
    by simp
  have c: "msg_id (fst (Message_new USER (JObj []) None (snd (Message_new AGENT_PARTIAL (JObj []) None ex_sys))))
       \<noteq> msg_id (fst (Message_new AGENT_PARTIAL (JObj []) None ex_sys))"
    using i Message_new_id [of None AGENT_PARTIAL "JObj []" ex_sys USER "JObj []"]
    by blast
  show ?thesis using a b c i by blast
qed

text \<open>
  Claim C6 as stated fails: the empty string is supplied as id, and the envelope gets a
  \<open>uuid4\<close> id instead.
\<close>

theorem Message_new_empty_id_counterexample:
  "msg_id (fst (Message_new UPDATE_FILE (JObj []) (Some []) ex_sys)) = ''uuid-''"
  by code_simp








lemma serialize_file_map_invalid:
  "(path, raw) \<in> set fm \<Longrightarrow> \<not> valid_utf8 raw \<Longrightarrow> serialize_file_map fm = None"
  by (induction fm) (auto simp: decode_utf8_def split: option.splits)








text \<open>
  A load that fails makes \<open>handler\<close> raise, and a file that is not UTF-8 makes the
  load fail: the bytes \<open>FF D8\<close> of \<open>logo.png\<close> cannot be written into the JSON reply.
\<close>

lemma handler_load_code_raises:
  assumes "map_of kvs ''type'' = Some (JStr ''load_code'')"
    and "map_of kvs ''data'' = Some (JObj dkvs)"
    and "map_of dkvs ''sandbox_id'' = Some v"
    and "tool_load_code srv v = Inl e"
  shows "handler srv (JObj kvs) a s = Inl (RemoteError e)"
  using assms by (simp add: handler_def dict_item_def load_code_def remote_def)

lemma binary_file_is_not_serialised:
  "mcp_load_code ex_sandboxes_binary (JStr ''sb2'') = Inl (SerializationError ''load_code'')"
  by code_simp




lemma utf8_examples:
  "valid_utf8 [CHR 0xC3, CHR 0xA9]" "\<not> valid_utf8 [CHR 0xFF, CHR 0xD8]"
  "\<not> valid_utf8 [CHR 0xC0, CHR 0x80]" "\<not> valid_utf8 [CHR 0xED, CHR 0xA0, CHR 0x80]"
  "valid_utf8 [CHR 0xF0, CHR 0x9F, CHR 0x98, CHR 0x80]" "valid_utf8 [CHR 0xE2, CHR 0x82, CHR 0xAC, CHR 0x41]"
  "\<not> valid_utf8 [CHR 0xE2, CHR 0x82]" "\<not> valid_utf8 [CHR 0xF4, CHR 0x90, CHR 0x80, CHR 0x80]"
  by code_simp+

end
